theory Spec2Isabelle
  imports Complex_Main
begin

section \<open>Numbers, strings and platform primitives\<close>

text \<open>
  The client is TypeScript on top of \<^verbatim>\<open>fetch\<close>. A JavaScript \<^verbatim>\<open>number\<close> that is a finite
  value is modelled as a \<^typ>\<open>real\<close> with exact arithmetic (the rounding of doubles is not
  modelled); a value that the code tests with \<^verbatim>\<open>Number.isFinite\<close> is a \<^typ>\<open>real option\<close>,
  \<^term>\<open>None\<close> standing for \<^verbatim>\<open>NaN\<close> and the infinities. The retry counter and HTTP status
  codes are natural numbers. \<^verbatim>\<open>decision.attempts | 0\<close> is the ToInt32 conversion, written
  out on integers.
\<close>

definition toInt32 :: "int \<Rightarrow> int" where
  "toInt32 n = (n + 2 ^ 31) mod 2 ^ 32 - 2 ^ 31"

text \<open>The readings of the platform that \<^verbatim>\<open>computeDelay\<close> takes: \<^verbatim>\<open>Math.random()\<close>,
  \<^verbatim>\<open>Date.now()\<close> and \<^verbatim>\<open>Date.parse\<close> (\<^term>\<open>None\<close> is \<^verbatim>\<open>NaN\<close>).\<close>

record platform =
  mathRandom :: real
  dateNow :: real
  dateParse :: "string \<Rightarrow> real option"

definition lowerChar :: "char \<Rightarrow> char" where
  "lowerChar c =
     (case map_of (zip ''ABCDEFGHIJKLMNOPQRSTUVWXYZ'' ''abcdefghijklmnopqrstuvwxyz'') c of
        Some d \<Rightarrow> d
      | None \<Rightarrow> c)"

definition toLowerCase :: "string \<Rightarrow> string" where
  "toLowerCase s = map lowerChar s"

text \<open>The regular expression \<^verbatim>\<open>/^\d+$/\<close> and \<^verbatim>\<open>Number\<close> on a string it accepts.\<close>

definition isDigit :: "char \<Rightarrow> bool" where
  "isDigit c = (c \<in> set ''0123456789'')"

definition digitsOnly :: "string \<Rightarrow> bool" where
  "digitsOnly s = (s \<noteq> [] \<and> list_all isDigit s)"

definition digitValue :: "char \<Rightarrow> nat" where
  "digitValue c =
     (case map_of (zip ''0123456789'' [0, 1, 2, 3, 4, 5, 6, 7, 8, 9]) c of
        Some d \<Rightarrow> d
      | None \<Rightarrow> 0)"

definition decimalValue :: "string \<Rightarrow> nat" where
  "decimalValue s = foldl (\<lambda>acc c. 10 * acc + digitValue c) 0 s"

text \<open>A double overflows to \<^verbatim>\<open>Infinity\<close> from \<open>2^1024 - 2^970\<close> on.\<close>

definition doubleOverflow :: "real \<Rightarrow> bool" where
  "doubleOverflow x = (2 ^ 1024 - 2 ^ 970 \<le> x)"

section \<open>Responses\<close>

text \<open>
  A response body is a byte stream: the chunks the reader yields in order, and whether
  the read after the last chunk rejects instead of reporting the end of the stream.
  Header names are matched case-insensitively, as \<^verbatim>\<open>Headers\<close> does.
\<close>

record body_stream =
  chunks :: "string list"
  failsAtEnd :: bool

record response =
  resStatus :: nat
  resStatusText :: string
  resHeaders :: "(string \<times> string) list"
  resRedirected :: bool
  resBody :: "body_stream option"

definition headerGet :: "(string \<times> string) list \<Rightarrow> string \<Rightarrow> string option" where
  "headerGet hs name = map_of (map (\<lambda>(k, v). (toLowerCase k, v)) hs) (toLowerCase name)"

text \<open>\<^verbatim>\<open>Response.ok\<close>: the status is in the range 200 to 299.\<close>

definition resOk :: "response \<Rightarrow> bool" where
  "resOk r = (200 \<le> resStatus r \<and> resStatus r \<le> 299)"

section \<open>Retry decisions (helper.ts)\<close>

text \<open>
  \<^verbatim>\<open>RetryDecision = boolean | { attempts: number; delay?: number | ((attempt) => number) }\<close>.
  A delay function is modelled by its result converted with \<^verbatim>\<open>Number\<close>
  (\<^term>\<open>None\<close> when that is not finite).
\<close>

datatype delay_setting =
    NoDelay
  | FixedDelay real
  | DelayFn "nat \<Rightarrow> real option"

datatype retry_decision =
    Flag bool
  | Policy int delay_setting

text \<open>\<^verbatim>\<open>allowAndDelayFromDecision(decision, attempt)\<close>: the pair is \<^verbatim>\<open>{allow, delay}\<close>.\<close>

fun allowAndDelayFromDecision :: "retry_decision option \<Rightarrow> nat \<Rightarrow> bool \<times> real option" where
  "allowAndDelayFromDecision (Some (Flag b)) attempt = (b \<and> attempt < 1, None)"
| "allowAndDelayFromDecision (Some (Policy attempts d)) attempt =
     (let mx = max 0 (toInt32 attempts) in
      if int attempt < mx then
        (case d of
           FixedDelay v \<Rightarrow> (True, Some v)
         | DelayFn f \<Rightarrow>
             (case f attempt of
                Some v \<Rightarrow> if 0 \<le> v then (True, Some v) else (True, None)
              | None \<Rightarrow> (True, None))
         | NoDelay \<Rightarrow> (True, None))
      else (False, None))"
| "allowAndDelayFromDecision None attempt = (False, None)"

section \<open>Delay computation (helper.ts)\<close>

text \<open>The value of the \<^verbatim>\<open>retry-after\<close> header in milliseconds, \<^term>\<open>None\<close> when
  \<^verbatim>\<open>Number.isFinite(ms)\<close> fails.\<close>

definition retryAfterMs :: "platform \<Rightarrow> string \<Rightarrow> real option" where
  "retryAfterMs P ra =
     (if digitsOnly ra then
        (let n = real (decimalValue ra) in
         if doubleOverflow n \<or> doubleOverflow (n * 1000) then None else Some (n * 1000))
      else
        (case dateParse P ra of
           None \<Rightarrow> None
         | Some t \<Rightarrow> Some (max 0 (t - dateNow P))))"

text \<open>The second path of \<^verbatim>\<open>computeDelay\<close>: the flag is set, a response is there, its
  \<^verbatim>\<open>retry-after\<close> header is a non-empty string and its value is finite.\<close>

definition retryAfterDelay :: "platform \<Rightarrow> bool \<Rightarrow> response option \<Rightarrow> real option" where
  "retryAfterDelay P respectRetryAfterHeader res =
     (if respectRetryAfterHeader then
        (case res of
           None \<Rightarrow> None
         | Some r \<Rightarrow>
             (case headerGet (resHeaders r) ''retry-after'' of
                None \<Rightarrow> None
              | Some ra \<Rightarrow> if ra = [] then None else retryAfterMs P ra))
      else None)"

definition computeDelay ::
  "platform \<Rightarrow> nat \<Rightarrow> real \<Rightarrow> bool \<Rightarrow> real \<Rightarrow> response option \<Rightarrow> real option \<Rightarrow> real" where
  "computeDelay P attempt maxDelay respectRetryAfterHeader backoffBase res delay =
     (case delay of
        Some d \<Rightarrow> max 0 (min maxDelay d)
      | None \<Rightarrow>
          (case retryAfterDelay P respectRetryAfterHeader res of
             Some ms \<Rightarrow> min maxDelay ms
           | None \<Rightarrow>
               min maxDelay (of_int \<lfloor>mathRandom P * (backoffBase * 2 ^ attempt)\<rfloor>)))"

section \<open>Handler resolution (helper.ts)\<close>

text \<open>
  The keys of a handler map and of \<^verbatim>\<open>retry.onStatus\<close>: a numeric status code, a symbolic
  status name, a range wildcard (\<^verbatim>\<open>5xx\<close> is \<open>Wildcard 5\<close>) and the two special events.
  A handler is known by its name only: what it does is the caller's business, and the
  code catches whatever it throws. By the type \<^verbatim>\<open>OnStatus\<close> an entry of a handler map is
  a function or absent, so \<^verbatim>\<open>typeof h === 'function'\<close> holds exactly for the entries that
  are there.
\<close>

datatype selector =
    Code nat
  | Name string
  | Wildcard nat
  | NetworkError
  | ParsingError

type_synonym handler = string

type_synonym handler_map = "selector \<Rightarrow> handler option"

text \<open>The table \<^verbatim>\<open>StatusCodeByName\<close> of types.ts, in its order.\<close>

definition StatusCodeByName :: "(string \<times> nat) list" where
  "StatusCodeByName =
    [(''continue'', 100), (''switchingProtocols'', 101), (''processing'', 102),
     (''earlyHints'', 103), (''ok'', 200), (''created'', 201), (''accepted'', 202),
     (''nonAuthoritativeInformation'', 203), (''noContent'', 204), (''resetContent'', 205),
     (''partialContent'', 206), (''multiStatus'', 207), (''alreadyReported'', 208),
     (''transformationApplied'', 214), (''imUsed'', 226), (''multipleChoices'', 300),
     (''movedPermanently'', 301), (''found'', 302), (''seeOther'', 303),
     (''notModified'', 304), (''useProxy'', 305), (''temporaryRedirect'', 307),
     (''permanentRedirect'', 308), (''badRequest'', 400), (''unauthorized'', 401),
     (''paymentRequired'', 402), (''forbidden'', 403), (''notFound'', 404),
     (''methodNotAllowed'', 405), (''notAcceptable'', 406),
     (''proxyAuthenticationRequired'', 407), (''requestTimeout'', 408), (''conflict'', 409),
     (''gone'', 410), (''lengthRequired'', 411), (''preconditionFailed'', 412),
     (''payloadTooLarge'', 413), (''uriTooLong'', 414), (''unsupportedMediaType'', 415),
     (''rangeNotSatisfiable'', 416), (''expectationFailed'', 417), (''imATeapot'', 418),
     (''misdirectedRequest'', 421), (''unprocessableEntity'', 422), (''locked'', 423),
     (''failedDependency'', 424), (''tooEarly'', 425), (''upgradeRequired'', 426),
     (''preconditionRequired'', 428), (''tooManyRequests'', 429),
     (''requestHeaderFieldsTooLarge'', 431), (''noResponse'', 444),
     (''blockedByWindowsParentControls'', 450), (''unavailableForLegalReasons'', 451),
     (''sslCertificateError'', 495), (''sslCertificateRequired'', 496),
     (''httpRequestSentToHttpsPort'', 497), (''tokenExpiredInvalid'', 498),
     (''clientClosedRequest'', 499), (''internalServerError'', 500),
     (''notImplemented'', 501), (''badGateway'', 502), (''serviceUnavailable'', 503),
     (''gatewayTimeout'', 504), (''httpVersionNotSupported'', 505),
     (''variantAlsoNegotiates'', 506), (''insufficientStorage'', 507),
     (''loopDetected'', 508), (''bandwidthLimitExceeded'', 509), (''notExtended'', 510),
     (''networkAuthenticationRequired'', 511), (''webServerIsDown'', 521),
     (''connectionTimedOut'', 522), (''originIsUnreachable'', 523),
     (''sslHandshakeFailed'', 525), (''siteFrozen'', 530),
     (''networkConnectTimeoutError'', 599)]"

text \<open>\<^verbatim>\<open>codeToName\<close>: for each key of the table in order, \<^verbatim>\<open>m[StatusCodeByName[k]] = k\<close>.\<close>

definition codeToName :: "nat \<Rightarrow> string option" where
  "codeToName = fold (\<lambda>(k, v) m. m(v \<mapsto> k)) StatusCodeByName Map.empty"

definition pickSpecial :: "selector \<Rightarrow> handler_map \<Rightarrow> handler_map \<Rightarrow> handler option" where
  "pickSpecial key local global =
     (case local key of Some h \<Rightarrow> Some h | None \<Rightarrow> global key)"

definition statusToWildcard :: "nat \<Rightarrow> selector" where
  "statusToWildcard status = Wildcard (status div 100)"

text \<open>The operator \<^verbatim>\<open>a ?? b\<close>.\<close>

definition orElse :: "'a option \<Rightarrow> 'a option \<Rightarrow> 'a option" where
  "orElse a b = (case a of Some x \<Rightarrow> Some x | None \<Rightarrow> b)"

text \<open>\<^verbatim>\<open>name ? m[name] : undefined\<close>: the empty string is falsy.\<close>

definition byName :: "string option \<Rightarrow> (selector \<Rightarrow> 'a option) \<Rightarrow> 'a option" where
  "byName name m =
     (case name of
        None \<Rightarrow> None
      | Some n \<Rightarrow> if n = [] then None else m (Name n))"

definition pickStatusHandler ::
  "nat \<Rightarrow> handler_map \<Rightarrow> handler_map \<Rightarrow> (nat \<Rightarrow> string option) \<Rightarrow> handler option" where
  "pickStatusHandler status local global c2n =
     (let name = c2n status;
          h1 = orElse (local (Code status)) (byName name local)
      in case h1 of
           Some h \<Rightarrow> Some h
         | None \<Rightarrow>
             (let h2 = orElse (global (Code status)) (byName name global)
              in case h2 of
                   Some h \<Rightarrow> Some h
                 | None \<Rightarrow>
                     (let wildcard = statusToWildcard status;
                          h3 = local wildcard
                      in case h3 of
                           Some h \<Rightarrow> Some h
                         | None \<Rightarrow>
                             (let h4 = global wildcard
                              in case h4 of Some h \<Rightarrow> Some h | None \<Rightarrow> None))))"



section \<open>Retry configuration (types.ts, helper.ts)\<close>

datatype http_method = GET | POST | PUT | DELETE | PATCH | OPTIONS | HEAD

record retry_config =
  onNetworkError :: "retry_decision option"
  onParsingError :: "retry_decision option"
  onStatus :: "(selector \<Rightarrow> retry_decision option) option"
  cfgMaxDelay :: "real option"
  cfgBackoffBase :: "real option"
  cfgRespectRetryAfterHeader :: "bool option"
  cfgMaxOverallTime :: "real option"
  methods :: "http_method list option"

definition decisionFromStatus :: "nat \<Rightarrow> retry_config \<Rightarrow> retry_decision option" where
  "decisionFromStatus status configRetry =
     (case onStatus configRetry of
        None \<Rightarrow> None
      | Some m \<Rightarrow>
          (case m (Code status) of
             Some decisionNumber \<Rightarrow> Some decisionNumber
           | None \<Rightarrow>
               (case byName (codeToName status) m of
                  Some decisionName \<Rightarrow> Some decisionName
                | None \<Rightarrow> m (statusToWildcard status))))"

section \<open>Parsing a response body (helper.ts)\<close>

text \<open>
  Parsed JSON, and what a body is parsed into. \<^verbatim>\<open>JSON.parse\<close>, \<^verbatim>\<open>String\<close> on a JSON value
  and \<^verbatim>\<open>Response.formData\<close> belong to the platform and are fields of the world below.
  Bytes are decoded as they are (UTF-8 decoding is the identity of the model). An error
  value is known by its description.
\<close>

datatype json =
    JNull
  | JBool bool
  | JNumber real
  | JString string
  | JArray "json list"
  | JObject "(string \<times> json) list"

datatype content =
    Undefined
  | Text string
  | Json json
  | Blob string string
  | ArrayBuffer string
  | FormData "(string \<times> string) list"
  | WholeResponse response
  | BodyStream "body_stream option"

datatype parse_as =
    AsResponse | AsJson | AsText | AsBlob | AsArrayBuffer | AsFormData | AsStream

type_synonym js_error = string

datatype fetch_result =
    NetworkFailure js_error
  | Responds response

text \<open>
  The world of one logical call: the outcome of the transport invocation of each attempt
  (the transport is invoked once per attempt), the clock (\<^verbatim>\<open>Date.now()\<close> when the call
  starts and at the top of each attempt), the readings \<^verbatim>\<open>computeDelay\<close> takes at each
  attempt, the platform's parsers, and the URL builder (url.ts builds the final URL with
  the platform's \<^verbatim>\<open>URL\<close> class; \<^term>\<open>None\<close> when it throws).
\<close>

record world =
  transport :: "nat \<Rightarrow> fetch_result"
  startedAt :: real
  nowAt :: "nat \<Rightarrow> real"
  platformAt :: "nat \<Rightarrow> platform"
  jsonParse :: "string \<Rightarrow> json option"
  jsonToString :: "json \<Rightarrow> string"
  formDataOf :: "string \<Rightarrow> (string \<times> string) list option"
  buildUrl ::
    "string option \<Rightarrow> string \<Rightarrow> (string \<times> string) list option \<Rightarrow> string option
      \<Rightarrow> string option"

text \<open>\<^verbatim>\<open>res.text()\<close> and its siblings read the whole body; they reject when the stream
  fails. A response without a body reads as empty.\<close>

definition bodyBytes :: "response \<Rightarrow> js_error + string" where
  "bodyBytes res =
     (case resBody res of
        None \<Rightarrow> Inr []
      | Some rs \<Rightarrow>
          if failsAtEnd rs then Inl ''TypeError: the body stream failed''
          else Inr (concat (chunks rs)))"

definition contentTypeOf :: "response \<Rightarrow> string" where
  "contentTypeOf res =
     (case headerGet (resHeaders res) ''content-type'' of Some c \<Rightarrow> c | None \<Rightarrow> [])"

definition parseJsonText :: "world \<Rightarrow> string \<Rightarrow> js_error + content" where
  "parseJsonText W t =
     (if t \<noteq> [] then
        (case jsonParse W t of
           Some j \<Rightarrow> Inr (Json j)
         | None \<Rightarrow> Inl ''SyntaxError: JSON.parse'')
      else Inr Undefined)"

definition fallbackParse :: "world \<Rightarrow> response \<Rightarrow> parse_as option \<Rightarrow> js_error + content" where
  "fallbackParse W res parseAs =
     (case parseAs of
        Some AsJson \<Rightarrow>
          (case bodyBytes res of Inl e \<Rightarrow> Inl e | Inr t \<Rightarrow> parseJsonText W t)
      | Some AsText \<Rightarrow>
          (case bodyBytes res of Inl e \<Rightarrow> Inl e | Inr t \<Rightarrow> Inr (Text t))
      | Some AsBlob \<Rightarrow>
          (case bodyBytes res of
             Inl e \<Rightarrow> Inl e
           | Inr t \<Rightarrow> Inr (Blob t (contentTypeOf res)))
      | Some AsArrayBuffer \<Rightarrow>
          (case bodyBytes res of Inl e \<Rightarrow> Inl e | Inr t \<Rightarrow> Inr (ArrayBuffer t))
      | Some AsFormData \<Rightarrow>
          (case bodyBytes res of
             Inl e \<Rightarrow> Inl e
           | Inr t \<Rightarrow>
               (case formDataOf W t of
                  Some fd \<Rightarrow> Inr (FormData fd)
                | None \<Rightarrow> Inl ''TypeError: formData''))
      | Some AsResponse \<Rightarrow> Inr (WholeResponse res)
      | Some AsStream \<Rightarrow> Inr (BodyStream (resBody res))
      | None \<Rightarrow>
          (case bodyBytes res of Inl e \<Rightarrow> Inl e | Inr t \<Rightarrow> Inr (Text t)))"

text \<open>
  The global progress channel \<^verbatim>\<open>ProgressAPI\<close>: each of its three hooks is optional. The
  hooks and the per-call \<^verbatim>\<open>onProgress\<close> callback are taken to return normally; their calls
  are the events of the reader.
\<close>

record progress_api =
  hasStart :: bool
  hasSet :: bool
  hasDone :: bool

datatype progress_event =
    ApiStart
  | ApiSet "real option"
  | ApiDone
  | OnProgress nat "real option" "real option"

definition apiHas :: "(progress_api \<Rightarrow> bool) \<Rightarrow> progress_api option \<Rightarrow> bool" where
  "apiHas hook progressAPI = (case progressAPI of None \<Rightarrow> False | Some api \<Rightarrow> hook api)"

text \<open>\<^verbatim>\<open>Number(totalHeader)\<close> on the digits a content length is written in; \<^verbatim>\<open>NaN\<close>
  (falsy) otherwise.\<close>

definition totalOf :: "response \<Rightarrow> real option" where
  "totalOf res =
     (case headerGet (resHeaders res) ''content-length'' of
        None \<Rightarrow> None
      | Some totalHeader \<Rightarrow>
          if totalHeader \<noteq> [] \<and> digitsOnly totalHeader
          then Some (real (decimalValue totalHeader))
          else None)"

text \<open>\<^verbatim>\<open>total ? Math.min(1, loaded / total) : null\<close>.\<close>

definition percentOf :: "real option \<Rightarrow> nat \<Rightarrow> real option" where
  "percentOf tot loaded =
     (case tot of
        None \<Rightarrow> None
      | Some t \<Rightarrow> if t = 0 then None else Some (min 1 (real loaded / t)))"

text \<open>The read loop, the same in the three branches of the reader: one round per
  chunk, until the reader reports the end.\<close>

fun readLoop ::
  "bool \<Rightarrow> bool \<Rightarrow> progress_api option \<Rightarrow> real option \<Rightarrow> nat \<Rightarrow> string list
    \<Rightarrow> progress_event list" where
  "readLoop onProgress useProgressApi progressAPI tot loaded [] = []"
| "readLoop onProgress useProgressApi progressAPI tot loaded (v # rest) =
     (let loaded' = loaded + length v;
          percent = percentOf tot loaded'
      in (if onProgress then [OnProgress loaded' tot percent] else [])
         @ (if useProgressApi \<and> apiHas hasSet progressAPI then [ApiSet percent] else [])
         @ readLoop onProgress useProgressApi progressAPI tot loaded' rest)"

text \<open>
  \<^verbatim>\<open>parseWithReader(res, parseAs, opts, useProgressApi, progressAPI)\<close>; of \<^verbatim>\<open>opts\<close> it
  reads \<^verbatim>\<open>onProgress\<close> only. The result is the hooks called, in order, and the parsed
  value or the error thrown. The last events are those of the \<^verbatim>\<open>finally\<close> block.
\<close>

definition parseWithReader ::
  "world \<Rightarrow> response \<Rightarrow> parse_as option \<Rightarrow> bool \<Rightarrow> bool \<Rightarrow> progress_api option
    \<Rightarrow> progress_event list \<times> (js_error + content)" where
  "parseWithReader W res parseAs onProgress useProgressApi progressAPI =
     (case resBody res of
        None \<Rightarrow> ([], fallbackParse W res parseAs)
      | Some rs \<Rightarrow>
          (let tot = totalOf res;
               started =
                 (if useProgressApi then
                    (if apiHas hasStart progressAPI then [ApiStart] else [])
                    @ (if (tot = None \<or> tot = Some 0) \<and> apiHas hasSet progressAPI
                       then [ApiSet None] else [])
                  else []);
               reads = readLoop onProgress useProgressApi progressAPI tot 0 (chunks rs);
               outcome =
                 (if failsAtEnd rs then Inl ''TypeError: the body stream failed''
                  else if parseAs = Some AsArrayBuffer then
                    Inr (ArrayBuffer (concat (chunks rs)))
                  else if parseAs = Some AsBlob then
                    Inr (Blob (concat (chunks rs)) (contentTypeOf res))
                  else
                    (let textAcc = concat (chunks rs) in
                     if parseAs = Some AsJson then parseJsonText W textAcc
                     else Inr (Text textAcc)));
               cleanup =
                 (if useProgressApi \<and> apiHas hasDone progressAPI then [ApiDone] else [])
           in (started @ reads @ cleanup, outcome)))"

section \<open>Configuration, options and results (types.ts)\<close>

text \<open>
  A token is a string or a function; a function is modelled by what its call gives: a
  string, \<^verbatim>\<open>undefined\<close>, or an exception (a rejected promise).
\<close>

datatype token_result =
    Yields "string option"
  | Throws

datatype token =
    TokenString string
  | TokenFn token_result

text \<open>A request body. \<^verbatim>\<open>opts.json\<close> is held as the string \<^verbatim>\<open>JSON.stringify\<close> gives.\<close>

datatype body_init =
    Payload string
  | ReadableStream

text \<open>\<^verbatim>\<open>OnStatus\<close>: the handlers and the flag \<^verbatim>\<open>once\<close> they share.\<close>

record on_status =
  once :: "bool option"
  handlers :: handler_map

text \<open>\<^verbatim>\<open>RetryCall\<close>: a bare decision, or the wrapper with a decision and its knobs.\<close>

datatype retry_call =
    Bare retry_decision
  | Wrapper retry_decision "bool option" "real option" "real option"

datatype field =
    FContent | FStatus | FStatusText | FHeaders | FUrl | FOk | FRedirected | FMethod | FError

record call_config =
  baseUrl :: "string option"
  cfgHeaders :: "(string \<times> string) list option"
  defaultOrigin :: "string option"
  progress :: "progress_api option"
  cfgSuppressError :: "bool option"
  cfgReturnFields :: "field list option"
  cfgToken :: "token option"
  cfgOn :: "on_status option"
  cfgRetry :: "retry_config option"

record request_options =
  optMethod :: "http_method option"
  optHeaders :: "(string \<times> string) list option"
  optParams :: "(string \<times> string) list option"
  optJson :: "string option"
  optBody :: "body_init option"
  optParseAs :: "parse_as option"
  optMapResponse :: "(content \<Rightarrow> response \<Rightarrow> content) option"
  optOnProgress :: bool
  optUseProgressApi :: bool
  optSuppressError :: "bool option"
  optReturnFields :: "field list option"
  optToken :: "token option"
  optOn :: "on_status option"
  optRetry :: "retry_call option"

text \<open>
  The result object \<^verbatim>\<open>CallResult\<close>: a field is \<^term>\<open>None\<close> when the object does not have
  it. The \<^verbatim>\<open>cause\<close> of its \<^verbatim>\<open>error\<close> is the error caught (network and parse failures) or
  the \<^verbatim>\<open>code\<close> of the payload (status failures).
\<close>

datatype cause =
    CauseError js_error
  | CauseCode string

record result_error =
  errMessage :: string
  errCause :: "cause option"

record call_result =
  rContent :: "content option"
  rStatus :: "nat option"
  rStatusText :: "string option"
  rHeaders :: "(string \<times> string) list option"
  rUrl :: "string option"
  rOk :: "bool option"
  rRedirected :: "bool option"
  rMethod :: "http_method option"
  rError :: "result_error option"

text \<open>\<^verbatim>\<open>CallError\<close> (its \<^verbatim>\<open>name\<close> is always \<^verbatim>\<open>'CallError'\<close>).\<close>

record call_error =
  ceMessage :: string
  ceStatus :: "nat option"
  ceUrl :: "string option"
  ceMethod :: "http_method option"
  ceData :: "content option"
  ceResponse :: "response option"
  ceCause :: "js_error option"

datatype thrown =
    CallError call_error
  | PlainError string

datatype outcome =
    Resolved call_result
  | Rejected thrown

text \<open>\<^verbatim>\<open>filterFields(obj, opts, config)\<close>.\<close>

definition fieldsToReturn :: "request_options \<Rightarrow> call_config \<Rightarrow> field list option" where
  "fieldsToReturn opts config =
     (case optReturnFields opts of
        Some fs \<Rightarrow> if fs \<noteq> [] then Some fs else cfgReturnFields config
      | None \<Rightarrow> cfgReturnFields config)"

definition keep :: "field list \<Rightarrow> field \<Rightarrow> 'a option \<Rightarrow> 'a option" where
  "keep fs k v = (if k \<in> set fs then v else None)"

definition filterFields :: "call_result \<Rightarrow> request_options \<Rightarrow> call_config \<Rightarrow> call_result" where
  "filterFields obj opts config =
     (case fieldsToReturn opts config of
        None \<Rightarrow> obj
      | Some fs \<Rightarrow>
          \<lparr>rContent = keep fs FContent (rContent obj),
           rStatus = keep fs FStatus (rStatus obj),
           rStatusText = keep fs FStatusText (rStatusText obj),
           rHeaders = keep fs FHeaders (rHeaders obj),
           rUrl = keep fs FUrl (rUrl obj),
           rOk = keep fs FOk (rOk obj),
           rRedirected = keep fs FRedirected (rRedirected obj),
           rMethod = keep fs FMethod (rMethod obj),
           rError = keep fs FError (rError obj)\<rparr>)"

section \<open>The client and the prologue of a request (index.ts)\<close>

text \<open>
  \<^verbatim>\<open>createCall(config)\<close> closes over the configuration and the variable
  \<^verbatim>\<open>internalToken\<close>; \<^verbatim>\<open>token.set\<close>, \<^verbatim>\<open>token.get\<close> and \<^verbatim>\<open>token.clear\<close> work on that variable.
  (The transport is the world's.)
\<close>

record client =
  clientConfig :: call_config
  internalToken :: "string option"

definition createCall :: "call_config \<Rightarrow> client" where
  "createCall config =
     \<lparr>clientConfig = config,
      internalToken = (case cfgToken config of Some (TokenString s) \<Rightarrow> Some s | _ \<Rightarrow> None)\<rparr>"

definition tokenSet :: "string option \<Rightarrow> client \<Rightarrow> client" where
  "tokenSet t cl = cl\<lparr>internalToken := t\<rparr>"

definition tokenGet :: "client \<Rightarrow> string option" where
  "tokenGet cl = internalToken cl"

definition tokenClear :: "client \<Rightarrow> client" where
  "tokenClear cl = cl\<lparr>internalToken := None\<rparr>"

text \<open>\<^verbatim>\<open>Headers\<close>: names are lower-cased; \<^verbatim>\<open>set\<close> replaces the value.\<close>

type_synonym headers = "string \<Rightarrow> string option"

definition headersSet :: "string \<Rightarrow> string \<Rightarrow> headers \<Rightarrow> headers" where
  "headersSet k v h = h(toLowerCase k \<mapsto> v)"

definition headersHas :: "headers \<Rightarrow> string \<Rightarrow> bool" where
  "headersHas h k = (h (toLowerCase k) \<noteq> None)"

definition newHeaders :: "(string \<times> string) list \<Rightarrow> headers" where
  "newHeaders init = fold (\<lambda>(k, v) h. headersSet k v h) init Map.empty"

definition DEFAULT_METHOD :: http_method where
  "DEFAULT_METHOD = GET"

definition DEFAULT_BACKOFF_BASE :: real where
  "DEFAULT_BACKOFF_BASE = 250"

definition DEFAULT_MAX_DELAY :: real where
  "DEFAULT_MAX_DELAY = 30000"

definition DEFAULT_RESPECT_RETRY_AFTER_HEADER :: bool where
  "DEFAULT_RESPECT_RETRY_AFTER_HEADER = True"

definition DEFAULT_RETRY_METHODS :: "http_method list" where
  "DEFAULT_RETRY_METHODS = [GET, OPTIONS, HEAD]"

definition requestMethod :: "request_options \<Rightarrow> http_method" where
  "requestMethod opts = (case optMethod opts of Some m \<Rightarrow> m | None \<Rightarrow> DEFAULT_METHOD)"

definition mergedHeaders :: "call_config \<Rightarrow> request_options \<Rightarrow> headers" where
  "mergedHeaders config opts =
     fold (\<lambda>(k, v) h. headersSet k v h)
       (case optHeaders opts of Some hs \<Rightarrow> hs | None \<Rightarrow> [])
       (newHeaders (case cfgHeaders config of Some hs \<Rightarrow> hs | None \<Rightarrow> []))"

text \<open>\<^verbatim>\<open>resolveToken\<close>: \<^term>\<open>None\<close> of the outer option when the token function throws.\<close>

definition callToken :: "token \<Rightarrow> string option option" where
  "callToken t =
     (case t of
        TokenString s \<Rightarrow> Some (Some s)
      | TokenFn (Yields r) \<Rightarrow> Some r
      | TokenFn Throws \<Rightarrow> None)"

definition resolveToken :: "client \<Rightarrow> request_options \<Rightarrow> string option option" where
  "resolveToken cl opts =
     (case optToken opts of
        Some t \<Rightarrow> callToken t
      | None \<Rightarrow>
          (case internalToken cl of
             Some s \<Rightarrow> Some (Some s)
           | None \<Rightarrow>
               (case cfgToken (clientConfig cl) of
                  Some t \<Rightarrow> callToken t
                | None \<Rightarrow> Some None)))"

text \<open>The headers after the token is resolved: \<^verbatim>\<open>if (t)\<close> takes a non-empty string; an
  exception of the token function is caught and leaves the headers as they are.\<close>

definition authHeaders :: "client \<Rightarrow> request_options \<Rightarrow> headers" where
  "authHeaders cl opts =
     (let headers = mergedHeaders (clientConfig cl) opts in
      if \<not> headersHas headers ''authorization'' then
        (case resolveToken cl opts of
           Some (Some t) \<Rightarrow>
             if t \<noteq> [] then headersSet ''authorization'' (''Bearer '' @ t) headers
             else headers
         | _ \<Rightarrow> headers)
      else headers)"

text \<open>\<^verbatim>\<open>finalUrlString\<close>, from the URL builder.\<close>

definition finalUrlString :: "world \<Rightarrow> call_config \<Rightarrow> string \<Rightarrow> request_options \<Rightarrow> string option" where
  "finalUrlString W config url opts =
     buildUrl W (baseUrl config) url (optParams opts) (defaultOrigin config)"

text \<open>The body, and the headers every attempt clones: \<^verbatim>\<open>json\<close> takes precedence over
  \<^verbatim>\<open>body\<close> and sets the content type unless one is set.\<close>

definition baseBody :: "request_options \<Rightarrow> body_init option" where
  "baseBody opts =
     (case optJson opts of
        Some j \<Rightarrow> Some (Payload j)
      | None \<Rightarrow> optBody opts)"

definition baseHeaders :: "client \<Rightarrow> request_options \<Rightarrow> headers" where
  "baseHeaders cl opts =
     (let headers = authHeaders cl opts in
      if optJson opts \<noteq> None \<and> \<not> headersHas headers ''content-type''
      then headersSet ''content-type'' ''application/json'' headers
      else headers)"

definition suppress :: "call_config \<Rightarrow> request_options \<Rightarrow> bool" where
  "suppress config opts =
     (case optSuppressError opts of
        Some b \<Rightarrow> b
      | None \<Rightarrow> (case cfgSuppressError config of Some b \<Rightarrow> b | None \<Rightarrow> False))"

definition localOn :: "request_options \<Rightarrow> handler_map" where
  "localOn opts = (case optOn opts of Some on \<Rightarrow> handlers on | None \<Rightarrow> Map.empty)"

definition globalOn :: "call_config \<Rightarrow> handler_map" where
  "globalOn config = (case cfgOn config of Some on \<Rightarrow> handlers on | None \<Rightarrow> Map.empty)"

definition effectiveOnce :: "call_config \<Rightarrow> request_options \<Rightarrow> bool" where
  "effectiveOnce config opts =
     (case orElse (case optOn opts of Some on \<Rightarrow> once on | None \<Rightarrow> None)
                  (case cfgOn config of Some on \<Rightarrow> once on | None \<Rightarrow> None) of
        Some b \<Rightarrow> b
      | None \<Rightarrow> False)"

text \<open>\<^verbatim>\<open>config.retry ?? {}\<close>.\<close>

definition noRetryConfig :: retry_config where
  "noRetryConfig =
     \<lparr>onNetworkError = None, onParsingError = None, onStatus = None, cfgMaxDelay = None,
      cfgBackoffBase = None, cfgRespectRetryAfterHeader = None, cfgMaxOverallTime = None,
      methods = None\<rparr>"

definition configRetry :: "call_config \<Rightarrow> retry_config" where
  "configRetry config = (case cfgRetry config of Some r \<Rightarrow> r | None \<Rightarrow> noRetryConfig)"

definition callDecision :: "request_options \<Rightarrow> retry_decision option" where
  "callDecision opts =
     (case optRetry opts of
        None \<Rightarrow> None
      | Some (Bare d) \<Rightarrow> Some d
      | Some (Wrapper d r m t) \<Rightarrow> Some d)"

definition backoffBase :: "call_config \<Rightarrow> real" where
  "backoffBase config =
     (case cfgBackoffBase (configRetry config) of Some b \<Rightarrow> b | None \<Rightarrow> DEFAULT_BACKOFF_BASE)"

definition configMaxDelay :: "call_config \<Rightarrow> real" where
  "configMaxDelay config =
     (case cfgMaxDelay (configRetry config) of Some m \<Rightarrow> m | None \<Rightarrow> DEFAULT_MAX_DELAY)"

definition respectRetryAfterHeader :: "call_config \<Rightarrow> request_options \<Rightarrow> bool" where
  "respectRetryAfterHeader config opts =
     (case optRetry opts of
        Some (Wrapper d (Some r) m t) \<Rightarrow> r
      | _ \<Rightarrow>
          (case cfgRespectRetryAfterHeader (configRetry config) of
             Some r \<Rightarrow> r
           | None \<Rightarrow> DEFAULT_RESPECT_RETRY_AFTER_HEADER))"

definition maxDelay :: "call_config \<Rightarrow> request_options \<Rightarrow> real" where
  "maxDelay config opts =
     (case optRetry opts of
        Some (Wrapper d r (Some m) t) \<Rightarrow> m
      | _ \<Rightarrow> configMaxDelay config)"

definition maxOverallTime :: "call_config \<Rightarrow> request_options \<Rightarrow> real option" where
  "maxOverallTime config opts =
     (case optRetry opts of
        Some (Wrapper d r m (Some t)) \<Rightarrow> Some t
      | _ \<Rightarrow> cfgMaxOverallTime (configRetry config))"

definition retryMethods :: "call_config \<Rightarrow> http_method list" where
  "retryMethods config =
     (case methods (configRetry config) of Some ms \<Rightarrow> ms | None \<Rightarrow> DEFAULT_RETRY_METHODS)"

definition methodAllowed :: "call_config \<Rightarrow> request_options \<Rightarrow> bool" where
  "methodAllowed config opts = (requestMethod opts \<in> set (retryMethods config))"

definition isStreamBody :: "request_options \<Rightarrow> bool" where
  "isStreamBody opts = (baseBody opts = Some ReadableStream)"

definition canReplayBody :: "request_options \<Rightarrow> bool" where
  "canReplayBody opts = (\<not> isStreamBody opts)"

section \<open>The attempt loop (index.ts)\<close>

text \<open>
  What a call does, in order: the transport invocations (with the URL, method, headers
  and body passed), the hooks of the body reader, the handlers invoked (with the context
  object passed), and, when a retry is granted, the call of \<^verbatim>\<open>computeDelay\<close> with the
  attempt counter and the delay it returned (the code sleeps that long when it is
  positive). Timers, abort signals and debug output are left out: an abort reaches the
  loop as a failure of the transport.
\<close>

datatype handler_ctx =
    StatusCtx nat string http_method response content
  | ParsingCtx string http_method response js_error
  | NetworkCtx string http_method js_error

datatype event =
    TransportCall nat string http_method headers "body_init option"
  | ProgressEvent progress_event
  | HandlerCall nat handler handler_ctx
  | Backoff nat real

datatype step =
    Retry
  | Final outcome

definition digitChar :: "nat \<Rightarrow> char" where
  "digitChar d = ''0123456789'' ! d"

fun showNat :: "nat \<Rightarrow> string" where
  "showNat n = (if n < 10 then [digitChar n] else showNat (n div 10) @ [digitChar (n mod 10)])"

declare showNat.simps [simp del]

text \<open>\<^verbatim>\<open>contentType.includes('application/json')\<close>.\<close>

primrec stringIncludes :: "string \<Rightarrow> string \<Rightarrow> bool" where
  "stringIncludes [] sub = (sub = [])"
| "stringIncludes (c # cs) sub = (take (length sub) (c # cs) = sub \<or> stringIncludes cs sub)"

text \<open>The budget check at the top of an attempt (\<^verbatim>\<open>!maxOverallTime\<close> holds for
  \<^verbatim>\<open>undefined\<close> and for \<open>0\<close>), and the gate \<^verbatim>\<open>within\<close> of the three channels.\<close>

definition withinBudget :: "world \<Rightarrow> call_config \<Rightarrow> request_options \<Rightarrow> nat \<Rightarrow> bool" where
  "withinBudget W config opts attempt =
     (case maxOverallTime config opts of
        None \<Rightarrow> True
      | Some t \<Rightarrow> t = 0 \<or> nowAt W attempt - startedAt W < t)"

definition retryWithin :: "world \<Rightarrow> call_config \<Rightarrow> request_options \<Rightarrow> nat \<Rightarrow> bool" where
  "retryWithin W config opts attempt =
     (methodAllowed config opts \<and> canReplayBody opts \<and> withinBudget W config opts attempt)"

definition willRetryNext ::
  "world \<Rightarrow> call_config \<Rightarrow> request_options \<Rightarrow> nat \<Rightarrow> retry_decision option \<Rightarrow> bool" where
  "willRetryNext W config opts attempt decision =
     (retryWithin W config opts attempt \<and> fst (allowAndDelayFromDecision decision attempt))"

text \<open>The retry branch: \<^verbatim>\<open>computeDelay\<close> with the \<^verbatim>\<open>delay\<close> of the decision.\<close>

definition backoff ::
  "world \<Rightarrow> call_config \<Rightarrow> request_options \<Rightarrow> nat \<Rightarrow> response option
    \<Rightarrow> retry_decision option \<Rightarrow> event" where
  "backoff W config opts attempt res decision =
     Backoff attempt
       (computeDelay (platformAt W attempt) attempt (maxDelay config opts)
          (respectRetryAfterHeader config opts) (backoffBase config) res
          (snd (allowAndDelayFromDecision decision attempt)))"

text \<open>\<^verbatim>\<open>if (h && (!effectiveOnce || !willRetryNext)) await h(ctx)\<close>, in a \<^verbatim>\<open>try\<close> that
  catches everything.\<close>

definition fire ::
  "call_config \<Rightarrow> request_options \<Rightarrow> bool \<Rightarrow> nat \<Rightarrow> handler option \<Rightarrow> handler_ctx
    \<Rightarrow> event list" where
  "fire config opts retrying attempt h ctx =
     (case h of
        Some f \<Rightarrow>
          if \<not> effectiveOnce config opts \<or> \<not> retrying then [HandlerCall attempt f ctx]
          else []
      | None \<Rightarrow> [])"

text \<open>The result object and the error of a network failure that is not retried.\<close>

definition networkErrorResult :: "request_options \<Rightarrow> string \<Rightarrow> js_error \<Rightarrow> call_result" where
  "networkErrorResult opts finalUrl err =
     \<lparr>rContent = Some Undefined, rStatus = Some 0,
      rStatusText = Some ''Network/Abort error'', rHeaders = Some [],
      rUrl = Some finalUrl, rOk = Some False, rRedirected = Some False,
      rMethod = Some (requestMethod opts),
      rError = Some \<lparr>errMessage = ''Network/Abort error'',
                      errCause = Some (CauseError err)\<rparr>\<rparr>"

definition networkCallError :: "request_options \<Rightarrow> string \<Rightarrow> js_error \<Rightarrow> call_error" where
  "networkCallError opts finalUrl err =
     \<lparr>ceMessage = ''Network/Abort error'', ceStatus = None, ceUrl = Some finalUrl,
      ceMethod = Some (requestMethod opts), ceData = None, ceResponse = None,
      ceCause = Some err\<rparr>"

definition networkFailure ::
  "world \<Rightarrow> client \<Rightarrow> request_options \<Rightarrow> string \<Rightarrow> nat \<Rightarrow> js_error \<Rightarrow> event list \<times> step" where
  "networkFailure W cl opts finalUrl attempt err =
     (let config = clientConfig cl;
          decision = orElse (callDecision opts) (onNetworkError (configRetry config));
          retrying = willRetryNext W config opts attempt decision;
          fired = fire config opts retrying attempt
                    (pickSpecial NetworkError (localOn opts) (globalOn config))
                    (NetworkCtx finalUrl (requestMethod opts) err)
      in if retrying then (fired @ [backoff W config opts attempt None decision], Retry)
         else if suppress config opts then
           (fired,
            Final (Resolved (filterFields (networkErrorResult opts finalUrl err) opts config)))
         else
           (fired, Final (Rejected (CallError (networkCallError opts finalUrl err)))))"

text \<open>The parse target and the reader chosen for it.\<close>

definition parseTarget :: "request_options \<Rightarrow> response \<Rightarrow> parse_as" where
  "parseTarget opts res =
     (case optParseAs opts of
        Some explicitParse \<Rightarrow> explicitParse
      | None \<Rightarrow> if stringIncludes (contentTypeOf res) ''application/json'' then AsJson else AsText)"

definition parseResponse ::
  "world \<Rightarrow> call_config \<Rightarrow> request_options \<Rightarrow> response
    \<Rightarrow> progress_event list \<times> (js_error + content)" where
  "parseResponse W config opts res =
     (let parseAs = parseTarget opts res;
          wantsProgress = (optOnProgress opts \<or> optUseProgressApi opts)
      in if wantsProgress \<and> parseAs \<noteq> AsResponse \<and> parseAs \<noteq> AsStream then
           parseWithReader W res (Some parseAs) (optOnProgress opts) (optUseProgressApi opts)
             (progress config)
         else ([], fallbackParse W res (Some parseAs)))"

text \<open>The result object and the error of a parse failure that is not retried.\<close>

definition parseErrorResult ::
  "request_options \<Rightarrow> string \<Rightarrow> response \<Rightarrow> js_error \<Rightarrow> call_result" where
  "parseErrorResult opts finalUrl res err =
     \<lparr>rContent = Some Undefined, rStatus = Some (resStatus res),
      rStatusText = Some (if resStatusText res \<noteq> [] then resStatusText res
                          else ''Response parse error''),
      rHeaders = Some (resHeaders res),
      rUrl = Some finalUrl, rOk = Some False,
      rRedirected = Some (resRedirected res),
      rMethod = Some (requestMethod opts),
      rError = Some \<lparr>errMessage = ''Response parse error'',
                      errCause = Some (CauseError err)\<rparr>\<rparr>"

definition parseCallError ::
  "request_options \<Rightarrow> string \<Rightarrow> response \<Rightarrow> js_error \<Rightarrow> call_error" where
  "parseCallError opts finalUrl res err =
     \<lparr>ceMessage = ''Response parse error'', ceStatus = None, ceUrl = Some finalUrl,
      ceMethod = Some (requestMethod opts), ceData = None, ceResponse = Some res,
      ceCause = Some err\<rparr>"

definition parseFailure ::
  "world \<Rightarrow> client \<Rightarrow> request_options \<Rightarrow> string \<Rightarrow> nat \<Rightarrow> response \<Rightarrow> js_error
    \<Rightarrow> event list \<times> step" where
  "parseFailure W cl opts finalUrl attempt res err =
     (let config = clientConfig cl;
          decision = orElse (callDecision opts) (onParsingError (configRetry config));
          retrying = willRetryNext W config opts attempt decision;
          fired = fire config opts retrying attempt
                    (pickSpecial ParsingError (localOn opts) (globalOn config))
                    (ParsingCtx finalUrl (requestMethod opts) res err)
      in if retrying then (fired @ [backoff W config opts attempt (Some res) decision], Retry)
         else if suppress config opts then
           (fired,
            Final (Resolved (filterFields (parseErrorResult opts finalUrl res err) opts config)))
         else
           (fired, Final (Rejected (CallError (parseCallError opts finalUrl res err)))))"

text \<open>\<^verbatim>\<open>opts.mapResponse ? opts.mapResponse(data, res) : data\<close>; the callback is a
  function of its two arguments that returns.\<close>

definition mapped :: "request_options \<Rightarrow> content \<Rightarrow> response \<Rightarrow> content" where
  "mapped opts data res =
     (case optMapResponse opts of Some f \<Rightarrow> f data res | None \<Rightarrow> data)"

definition successResult ::
  "request_options \<Rightarrow> string \<Rightarrow> response \<Rightarrow> content \<Rightarrow> call_result" where
  "successResult opts finalUrl res data =
     \<lparr>rContent = Some (mapped opts data res), rStatus = Some (resStatus res),
      rStatusText = Some (resStatusText res), rHeaders = Some (resHeaders res),
      rUrl = Some finalUrl, rOk = Some (resOk res),
      rRedirected = Some (resRedirected res), rMethod = Some (requestMethod opts),
      rError = None\<rparr>"

definition success ::
  "client \<Rightarrow> request_options \<Rightarrow> string \<Rightarrow> nat \<Rightarrow> response \<Rightarrow> content \<Rightarrow> event list \<times> step" where
  "success cl opts finalUrl attempt res data =
     (let config = clientConfig cl;
          s = resStatus res;
          handler = pickStatusHandler s (localOn opts) (globalOn config) codeToName;
          fired = (case handler of
                     Some f \<Rightarrow>
                       [HandlerCall attempt f
                          (StatusCtx s finalUrl (requestMethod opts) res data)]
                   | None \<Rightarrow> [])
      in (fired, Final (Resolved (filterFields (successResult opts finalUrl res data) opts config))))"

text \<open>\<^verbatim>\<open>`Request failed with ${res.status}${res.statusText ? ' ' + res.statusText : ''}`\<close>.\<close>

definition failureMessage :: "response \<Rightarrow> string" where
  "failureMessage res =
     ''Request failed with '' @ showNat (resStatus res)
       @ (if resStatusText res \<noteq> [] then '' '' @ resStatusText res else [])"

text \<open>\<^verbatim>\<open>data && typeof data === 'object' && 'code' in data ? String(data.code) : undefined\<close>:
  of the parsed values only a JSON object can have the key.\<close>

definition codeOf :: "world \<Rightarrow> content \<Rightarrow> string option" where
  "codeOf W data =
     (case data of
        Json (JObject kvs) \<Rightarrow> map_option (jsonToString W) (map_of kvs ''code'')
      | _ \<Rightarrow> None)"

text \<open>The result object and the error of a status failure that is not retried. The error
  is built with \<^verbatim>\<open>url\<close>, the argument of \<^verbatim>\<open>request\<close>.\<close>

definition statusErrorResult ::
  "world \<Rightarrow> request_options \<Rightarrow> string \<Rightarrow> response \<Rightarrow> content \<Rightarrow> call_result" where
  "statusErrorResult W opts finalUrl res data =
     \<lparr>rContent = Some (mapped opts data res), rStatus = Some (resStatus res),
      rStatusText = Some (resStatusText res), rHeaders = Some (resHeaders res),
      rUrl = Some finalUrl, rOk = Some False,
      rRedirected = Some (resRedirected res), rMethod = Some (requestMethod opts),
      rError = Some \<lparr>errMessage = failureMessage res,
                      errCause = map_option CauseCode (codeOf W data)\<rparr>\<rparr>"

definition statusCallError ::
  "string \<Rightarrow> request_options \<Rightarrow> response \<Rightarrow> content \<Rightarrow> call_error" where
  "statusCallError url opts res data =
     \<lparr>ceMessage = failureMessage res, ceStatus = Some (resStatus res),
      ceUrl = Some url, ceMethod = Some (requestMethod opts), ceData = Some data,
      ceResponse = Some res, ceCause = None\<rparr>"

definition statusFailure ::
  "world \<Rightarrow> client \<Rightarrow> string \<Rightarrow> request_options \<Rightarrow> string \<Rightarrow> nat \<Rightarrow> response \<Rightarrow> content
    \<Rightarrow> event list \<times> step" where
  "statusFailure W cl url opts finalUrl attempt res data =
     (let config = clientConfig cl;
          s = resStatus res;
          handler = pickStatusHandler s (localOn opts) (globalOn config) codeToName;
          decision = orElse (callDecision opts)
                       (decisionFromStatus (resStatus res) (configRetry config));
          retrying = willRetryNext W config opts attempt decision;
          fired = fire config opts retrying attempt handler
                    (StatusCtx s finalUrl (requestMethod opts) res data)
      in if retrying then (fired @ [backoff W config opts attempt (Some res) decision], Retry)
         else if suppress config opts then
           (fired,
            Final (Resolved (filterFields (statusErrorResult W opts finalUrl res data)
                               opts config)))
         else
           (fired, Final (Rejected (CallError (statusCallError url opts res data)))))"

definition prepend :: "event list \<Rightarrow> event list \<times> step \<Rightarrow> event list \<times> step" where
  "prepend evs r = (evs @ fst r, snd r)"

text \<open>One round of the \<^verbatim>\<open>while (true)\<close> loop.\<close>

definition attemptStep ::
  "world \<Rightarrow> client \<Rightarrow> string \<Rightarrow> request_options \<Rightarrow> string \<Rightarrow> nat \<Rightarrow> event list \<times> step" where
  "attemptStep W cl url opts finalUrl attempt =
     (let call = TransportCall attempt finalUrl (requestMethod opts) (baseHeaders cl opts)
                   (baseBody opts)
      in case transport W attempt of
           NetworkFailure err \<Rightarrow>
             prepend [call] (networkFailure W cl opts finalUrl attempt err)
         | Responds res \<Rightarrow>
             (let parsed = parseResponse W (clientConfig cl) opts res;
                  reading = map ProgressEvent (fst parsed)
              in case snd parsed of
                   Inl err \<Rightarrow>
                     prepend (call # reading) (parseFailure W cl opts finalUrl attempt res err)
                 | Inr data \<Rightarrow>
                     if resOk res then
                       prepend (call # reading) (success cl opts finalUrl attempt res data)
                     else
                       prepend (call # reading)
                         (statusFailure W cl url opts finalUrl attempt res data)))"

text \<open>
  A retry is granted only while the attempt counter is below \<open>max(0, attempts | 0)\<close>, or
  below 1 for a boolean decision, so below \<open>2^31\<close>: the loop ends.
\<close>

lemma toInt32_less: "toInt32 n < 2 ^ 31"
proof -
  have "(n + 2 ^ 31) mod 2 ^ 32 < (2 ^ 32 :: int)"
    by (rule pos_mod_bound) simp
  then show ?thesis
    by (simp add: toInt32_def)
qed

lemma allow_attempt_less:
  assumes "fst (allowAndDelayFromDecision decision attempt)"
  shows "attempt < 2 ^ 31"
proof (cases decision)
  case None
  with assms show ?thesis by simp
next
  case (Some d)
  show ?thesis
  proof (cases d)
    case (Flag b)
    with Some assms show ?thesis by simp
  next
    case (Policy n ds)
    with Some assms have "int attempt < max 0 (toInt32 n)"
      by (simp add: Let_def split: if_splits)
    with toInt32_less [of n] have "int attempt < 2 ^ 31"
      by simp
    then show ?thesis
      by (metis of_nat_less_iff of_nat_numeral of_nat_power)
  qed
qed

lemma willRetryNext_attempt_less:
  "willRetryNext W config opts attempt decision \<Longrightarrow> attempt < 2 ^ 31"
  unfolding willRetryNext_def by (blast intro: allow_attempt_less)

lemma networkFailure_Retry:
  "snd (networkFailure W cl opts finalUrl attempt err) = Retry \<Longrightarrow> attempt < 2 ^ 31"
  by (auto simp: networkFailure_def Let_def dest: willRetryNext_attempt_less split: if_splits)

lemma parseFailure_Retry:
  "snd (parseFailure W cl opts finalUrl attempt res err) = Retry \<Longrightarrow> attempt < 2 ^ 31"
  by (auto simp: parseFailure_def Let_def dest: willRetryNext_attempt_less split: if_splits)

lemma statusFailure_Retry:
  "snd (statusFailure W cl url opts finalUrl attempt res data) = Retry \<Longrightarrow> attempt < 2 ^ 31"
  by (auto simp: statusFailure_def Let_def dest: willRetryNext_attempt_less split: if_splits)

lemma success_Final: "snd (success cl opts finalUrl attempt res data) \<noteq> Retry"
  by (simp add: success_def Let_def)

lemma attemptStep_Retry:
  "snd (attemptStep W cl url opts finalUrl attempt) = Retry \<Longrightarrow> attempt < 2 ^ 31"
  by (auto simp: attemptStep_def Let_def prepend_def success_Final
      dest: networkFailure_Retry parseFailure_Retry statusFailure_Retry
      split: fetch_result.splits sum.splits if_splits)

function attemptLoop ::
  "world \<Rightarrow> client \<Rightarrow> string \<Rightarrow> request_options \<Rightarrow> string \<Rightarrow> nat \<Rightarrow> event list \<times> outcome" where
  "attemptLoop W cl url opts finalUrl attempt =
     (case snd (attemptStep W cl url opts finalUrl attempt) of
        Retry \<Rightarrow>
          (let rest = attemptLoop W cl url opts finalUrl (Suc attempt)
           in (fst (attemptStep W cl url opts finalUrl attempt) @ fst rest, snd rest))
      | Final out \<Rightarrow> (fst (attemptStep W cl url opts finalUrl attempt), out))"
  by pat_completeness auto
termination
proof (relation "measure (\<lambda>(W, cl, url, opts, finalUrl, attempt). 2 ^ 31 - attempt)")
  show "wf (measure (\<lambda>(W, cl, url, opts, finalUrl, attempt). 2 ^ 31 - attempt))"
    by simp
next
  fix W cl url opts finalUrl attempt
  assume "snd (attemptStep W cl url opts finalUrl attempt) = Retry"
  then have "attempt < 2 ^ 31"
    by (rule attemptStep_Retry)
  then show "((W, cl, url, opts, finalUrl, Suc attempt), (W, cl, url, opts, finalUrl, attempt))
      \<in> measure (\<lambda>(W, cl, url, opts, finalUrl, attempt). 2 ^ 31 - attempt)"
    by simp
qed

declare attemptLoop.simps [simp del]

text \<open>
  \<^verbatim>\<open>request(url, opts)\<close> of the client: the prologue resolves the token and builds the
  final URL (the builder throws a plain \<^verbatim>\<open>Error\<close> for a relative URL without an origin),
  then the loop starts with the attempt counter at 0.
\<close>

definition request :: "world \<Rightarrow> client \<Rightarrow> string \<Rightarrow> request_options \<Rightarrow> event list \<times> outcome" where
  "request W cl url opts =
     (case finalUrlString W (clientConfig cl) url opts of
        None \<Rightarrow>
          ([], Rejected (PlainError
             ''Relative URL provided but no baseUrl or defaultOrigin configured, and no window.location.origin available.''))
      | Some finalUrl \<Rightarrow> attemptLoop W cl url opts finalUrl 0)"

text \<open>Observers of a trace.\<close>

fun isTransportCall :: "event \<Rightarrow> bool" where
  "isTransportCall (TransportCall a u m h b) = True"
| "isTransportCall e = False"

definition transportCalls :: "event list \<Rightarrow> nat" where
  "transportCalls trace = length (filter isTransportCall trace)"

fun handlerCallOf :: "event \<Rightarrow> (nat \<times> handler) option" where
  "handlerCallOf (HandlerCall a h ctx) = Some (a, h)"
| "handlerCallOf e = None"

definition handlerCalls :: "event list \<Rightarrow> (nat \<times> handler) list" where
  "handlerCalls trace = List.map_filter handlerCallOf trace"

fun backoffAttemptOf :: "event \<Rightarrow> nat option" where
  "backoffAttemptOf (Backoff a d) = Some a"
| "backoffAttemptOf e = None"

definition retriesGrantedAt :: "event list \<Rightarrow> nat list" where
  "retriesGrantedAt trace = List.map_filter backoffAttemptOf trace"

fun sentTo :: "event \<Rightarrow> (string \<times> headers) option" where
  "sentTo (TransportCall a u m h b) = Some (u, h)"
| "sentTo e = None"

section \<open>Outcomes of an attempt\<close>

text \<open>
  The classification of an attempt, as the loop makes it: the transport throws; the body
  does not parse; it parses and the status is not a success; success. With it, the
  decision the loop consults (\<^verbatim>\<open>callDecision ?? ...\<close>; none on success) and whether the
  loop grants a retry at an attempt.
\<close>

datatype call_outcome =
    Success response content
  | NetworkFailed js_error
  | ParseFailed response js_error
  | StatusFailed response content

definition classify :: "world \<Rightarrow> call_config \<Rightarrow> request_options \<Rightarrow> nat \<Rightarrow> call_outcome" where
  "classify W config opts attempt =
     (case transport W attempt of
        NetworkFailure err \<Rightarrow> NetworkFailed err
      | Responds res \<Rightarrow>
          (case snd (parseResponse W config opts res) of
             Inl err \<Rightarrow> ParseFailed res err
           | Inr data \<Rightarrow> if resOk res then Success res data else StatusFailed res data))"

definition decisionFor :: "call_config \<Rightarrow> request_options \<Rightarrow> call_outcome \<Rightarrow> retry_decision option" where
  "decisionFor config opts oc =
     (case oc of
        Success res data \<Rightarrow> None
      | NetworkFailed err \<Rightarrow> orElse (callDecision opts) (onNetworkError (configRetry config))
      | ParseFailed res err \<Rightarrow> orElse (callDecision opts) (onParsingError (configRetry config))
      | StatusFailed res data \<Rightarrow>
          orElse (callDecision opts) (decisionFromStatus (resStatus res) (configRetry config)))"

definition retryGranted :: "world \<Rightarrow> client \<Rightarrow> request_options \<Rightarrow> nat \<Rightarrow> bool" where
  "retryGranted W cl opts attempt =
     willRetryNext W (clientConfig cl) opts attempt
       (decisionFor (clientConfig cl) opts (classify W (clientConfig cl) opts attempt))"







text \<open>The handler the loop resolves for an outcome: by status for a response that
  parsed, by the special event name otherwise.\<close>

definition handlerFor :: "call_config \<Rightarrow> request_options \<Rightarrow> call_outcome \<Rightarrow> handler option" where
  "handlerFor config opts oc =
     (case oc of
        Success res data \<Rightarrow>
          pickStatusHandler (resStatus res) (localOn opts) (globalOn config) codeToName
      | StatusFailed res data \<Rightarrow>
          pickStatusHandler (resStatus res) (localOn opts) (globalOn config) codeToName
      | NetworkFailed err \<Rightarrow> pickSpecial NetworkError (localOn opts) (globalOn config)
      | ParseFailed res err \<Rightarrow> pickSpecial ParsingError (localOn opts) (globalOn config))"

text \<open>Whether a field of the result object passes \<^verbatim>\<open>filterFields\<close>.\<close>

definition returnsField :: "request_options \<Rightarrow> call_config \<Rightarrow> field \<Rightarrow> bool" where
  "returnsField opts config k =
     (case fieldsToReturn opts config of None \<Rightarrow> True | Some fs \<Rightarrow> k \<in> set fs)"

text \<open>The status a final result or error carries.\<close>

fun statusCarried :: "outcome \<Rightarrow> nat option" where
  "statusCarried (Resolved r) = rStatus r"
| "statusCarried (Rejected (CallError e)) = ceStatus e"
| "statusCarried (Rejected (PlainError m)) = None"

definition sentHeaders :: "event list \<Rightarrow> headers list" where
  "sentHeaders trace = map snd (List.map_filter sentTo trace)"

definition sentUrls :: "event list \<Rightarrow> string list" where
  "sentUrls trace = map fst (List.map_filter sentTo trace)"

definition doneCalls :: "progress_event list \<Rightarrow> nat" where
  "doneCalls evs = length (filter (\<lambda>e. e = ApiDone) evs)"

section \<open>Concrete inputs\<close>

definition platform0 :: platform where
  "platform0 = \<lparr>mathRandom = 1 / 2, dateNow = 0, dateParse = (\<lambda>s. None)\<rparr>"




definition noConfig :: call_config where
  "noConfig =
     \<lparr>baseUrl = None, cfgHeaders = None, defaultOrigin = None, progress = None,
      cfgSuppressError = None, cfgReturnFields = None, cfgToken = None, cfgOn = None,
      cfgRetry = None\<rparr>"

definition noOptions :: request_options where
  "noOptions =
     \<lparr>optMethod = None, optHeaders = None, optParams = None, optJson = None,
      optBody = None, optParseAs = None, optMapResponse = None, optOnProgress = False,
      optUseProgressApi = False, optSuppressError = None, optReturnFields = None,
      optToken = None, optOn = None, optRetry = None\<rparr>"

definition textResponse :: "nat \<Rightarrow> string \<Rightarrow> string \<Rightarrow> response" where
  "textResponse s st txt =
     \<lparr>resStatus = s, resStatusText = st, resHeaders = [(''Content-Type'', ''text/plain'')],
      resRedirected = False, resBody = Some \<lparr>chunks = [txt], failsAtEnd = False\<rparr>\<rparr>"

text \<open>A world with a given transport: the clock stands still, the URL builder passes an
  absolute URL through.\<close>

definition quietWorld :: "(nat \<Rightarrow> fetch_result) \<Rightarrow> world" where
  "quietWorld t =
     \<lparr>transport = t, startedAt = 0, nowAt = (\<lambda>a. 0), platformAt = (\<lambda>a. platform0),
      jsonParse = (\<lambda>s. None), jsonToString = (\<lambda>j. []), formDataOf = (\<lambda>s. None),
      buildUrl = (\<lambda>base path ps origin. Some path)\<rparr>"

text \<open>Scenario A: the policy \<^verbatim>\<open>{500: {attempts: 2}}\<close> and a transport that always
  returns status 500.\<close>

definition configA :: call_config where
  "configA =
     noConfig\<lparr>cfgRetry :=
       Some (noRetryConfig\<lparr>onStatus := Some (Map.empty(Code 500 \<mapsto> Policy 2 NoDelay))\<rparr>)\<rparr>"

definition worldA :: world where
  "worldA = quietWorld (\<lambda>a. Responds (textResponse 500 ''Internal Server Error'' ''oops''))"

text \<open>The example of the repository: \<open>{500: {attempts: 1}}\<close>, \<open>once: true\<close> in the
  configuration, a handler for 500 in the options of the call.\<close>

definition configOnce :: call_config where
  "configOnce =
     noConfig\<lparr>cfgRetry :=
                Some (noRetryConfig\<lparr>onStatus := Some (Map.empty(Code 500 \<mapsto> Policy 1 NoDelay))\<rparr>),
              cfgOn := Some \<lparr>once = Some True, handlers = Map.empty\<rparr>\<rparr>"

definition optionsOnce :: request_options where
  "optionsOnce =
     noOptions\<lparr>optOn := Some \<lparr>once = None, handlers = Map.empty(Code 500 \<mapsto> ''log500'')\<rparr>\<rparr>"

text \<open>Scenario B: \<open>{500: true}\<close>, \<open>once: true\<close>, a handler for 500 and none for 200; the
  transport returns 500, then 200.\<close>

definition configB :: call_config where
  "configB =
     noConfig\<lparr>cfgRetry :=
                Some (noRetryConfig\<lparr>onStatus := Some (Map.empty(Code 500 \<mapsto> Flag True))\<rparr>),
              cfgOn := Some \<lparr>once = Some True,
                             handlers = Map.empty(Code 500 \<mapsto> ''on500'')\<rparr>\<rparr>"

definition worldB :: world where
  "worldB =
     quietWorld (\<lambda>a. if a = 0 then Responds (textResponse 500 ''Internal Server Error'' ''oops'')
                      else Responds (textResponse 200 ''OK'' ''fine''))"

text \<open>A POST of a stream under permissive decisions, on a transport that always fails.\<close>

definition configStream :: call_config where
  "configStream =
     noConfig\<lparr>cfgRetry :=
       Some (noRetryConfig\<lparr>onNetworkError := Some (Policy 5 NoDelay),
                           methods := Some [GET, POST]\<rparr>)\<rparr>"

definition optionsStream :: request_options where
  "optionsStream =
     noOptions\<lparr>optMethod := Some POST, optBody := Some ReadableStream,
               optRetry := Some (Bare (Policy 9 NoDelay))\<rparr>"

definition worldDown :: world where
  "worldDown = quietWorld (\<lambda>a. NetworkFailure ''ECONNRESET'')"

text \<open>A relative path under a base URL: the builder joins them as the tests of url.ts
  expect for a base that ends with a slash; every response is a 404.\<close>

definition configBase :: call_config where
  "configBase = noConfig\<lparr>baseUrl := Some ''https://example.com/de/''\<rparr>"

definition worldMissing :: world where
  "worldMissing =
     (quietWorld (\<lambda>a. Responds (textResponse 404 ''Not Found'' ''missing'')))
       \<lparr>buildUrl := (\<lambda>base path ps origin. map_option (\<lambda>b. b @ path) base)\<rparr>"

text \<open>A client configured with a string token, and one configured with the empty string.\<close>

definition configToken :: "string \<Rightarrow> call_config" where
  "configToken t = noConfig\<lparr>cfgToken := Some (TokenString t)\<rparr>"







section \<open>Facts about the attempt loop\<close>

lemma transportCalls_append [simp]:
  "transportCalls (xs @ ys) = transportCalls xs + transportCalls ys"
  by (simp add: transportCalls_def)

lemma handlerCalls_append [simp]: "handlerCalls (xs @ ys) = handlerCalls xs @ handlerCalls ys"
  by (simp add: handlerCalls_def List.map_filter_def)

lemma retriesGrantedAt_append [simp]:
  "retriesGrantedAt (xs @ ys) = retriesGrantedAt xs @ retriesGrantedAt ys"
  by (simp add: retriesGrantedAt_def List.map_filter_def)

lemma observers_Nil [simp]:
  "transportCalls [] = 0" "handlerCalls [] = []" "retriesGrantedAt [] = []"
  by (simp_all add: transportCalls_def handlerCalls_def retriesGrantedAt_def map_filter_simps)

lemma observers_Cons [simp]:
  "transportCalls (e # es) = (if isTransportCall e then 1 else 0) + transportCalls es"
  "handlerCalls (e # es) = (case handlerCallOf e of Some c \<Rightarrow> [c] | None \<Rightarrow> []) @ handlerCalls es"
  "retriesGrantedAt (e # es) = (case backoffAttemptOf e of Some a \<Rightarrow> [a] | None \<Rightarrow> []) @ retriesGrantedAt es"
  by (simp_all add: transportCalls_def handlerCalls_def retriesGrantedAt_def map_filter_simps split: option.splits)

lemma observers_progress [simp]:
  "transportCalls (map ProgressEvent ps) = 0"
  "handlerCalls (map ProgressEvent ps) = []"
  "retriesGrantedAt (map ProgressEvent ps) = []"
  by (induction ps) simp_all

lemma fire_observed [simp]:
  "transportCalls (fire config opts retrying attempt h ctx) = 0"
  "retriesGrantedAt (fire config opts retrying attempt h ctx) = []"
  "handlerCalls (fire config opts retrying attempt h ctx) =
     (case h of Some f \<Rightarrow> if \<not> effectiveOnce config opts \<or> \<not> retrying then [(attempt, f)] else []
      | None \<Rightarrow> [])"
  by (simp_all add: fire_def split: option.splits)

lemma attemptStep_Retry_iff:
  "snd (attemptStep W cl url opts finalUrl attempt) = Retry \<longleftrightarrow> retryGranted W cl opts attempt"
  by (auto simp: attemptStep_def retryGranted_def classify_def decisionFor_def prepend_def Let_def
        networkFailure_def parseFailure_def statusFailure_def success_def willRetryNext_def
      split: fetch_result.splits sum.splits)

lemma attemptStep_calls:
  "transportCalls (fst (attemptStep W cl url opts finalUrl attempt)) = 1"
  by (auto simp: attemptStep_def prepend_def Let_def backoff_def
        networkFailure_def parseFailure_def statusFailure_def success_def
      split: fetch_result.splits sum.splits option.splits)

lemma attemptStep_retries:
  "retriesGrantedAt (fst (attemptStep W cl url opts finalUrl attempt))
     = (if retryGranted W cl opts attempt then [attempt] else [])"
  by (auto simp: attemptStep_def retryGranted_def classify_def decisionFor_def prepend_def Let_def backoff_def
        networkFailure_def parseFailure_def statusFailure_def success_def willRetryNext_def
      split: fetch_result.splits sum.splits option.splits)

lemma attemptLoop_Final:
  "snd (attemptStep W cl url opts finalUrl attempt) = Final out \<Longrightarrow>
   attemptLoop W cl url opts finalUrl attempt
     = (fst (attemptStep W cl url opts finalUrl attempt), out)"
  by (simp add: attemptLoop.simps)

lemma attemptLoop_Retry:
  "snd (attemptStep W cl url opts finalUrl attempt) = Retry \<Longrightarrow>
   attemptLoop W cl url opts finalUrl attempt =
     (fst (attemptStep W cl url opts finalUrl attempt)
        @ fst (attemptLoop W cl url opts finalUrl (Suc attempt)),
      snd (attemptLoop W cl url opts finalUrl (Suc attempt)))"
  by (simp add: attemptLoop.simps Let_def)

lemma attemptLoop_cases:
  obtains (retry) "retryGranted W cl opts attempt"
      "attemptLoop W cl url opts finalUrl attempt =
         (fst (attemptStep W cl url opts finalUrl attempt)
            @ fst (attemptLoop W cl url opts finalUrl (Suc attempt)),
          snd (attemptLoop W cl url opts finalUrl (Suc attempt)))"
  | (final) out where "\<not> retryGranted W cl opts attempt"
      "snd (attemptStep W cl url opts finalUrl attempt) = Final out"
      "attemptLoop W cl url opts finalUrl attempt
         = (fst (attemptStep W cl url opts finalUrl attempt), out)"
proof (cases "snd (attemptStep W cl url opts finalUrl attempt)")
  case Retry
  then show ?thesis
    using retry attemptLoop_Retry [OF Retry] by (simp add: attemptStep_Retry_iff)
next
  case (Final out)
  then have "\<not> retryGranted W cl opts attempt"
    using attemptStep_Retry_iff [of W cl url opts finalUrl attempt] by simp
  then show ?thesis
    using final Final attemptLoop_Final [OF Final] by simp
qed

lemma loop_calls_le:
  "(\<forall>a. retryGranted W cl opts a \<longrightarrow> a < K) \<Longrightarrow> attempt \<le> K \<Longrightarrow>
   transportCalls (fst (attemptLoop W cl url opts finalUrl attempt)) + attempt \<le> K + 1"
proof (induction W cl url opts finalUrl attempt rule: attemptLoop.induct)
  case (1 W cl url opts finalUrl attempt)
  show ?case
  proof (cases rule: attemptLoop_cases [of W cl opts attempt url finalUrl])
    case retry
    then have lt: "attempt < K" using "1.prems" by simp
    have "snd (attemptStep W cl url opts finalUrl attempt) = Retry"
      using retry(1) by (simp add: attemptStep_Retry_iff)
    then have "transportCalls (fst (attemptLoop W cl url opts finalUrl (Suc attempt))) + Suc attempt
        \<le> K + 1"
      using "1.IH" "1.prems"(1) lt by simp
    then show ?thesis
      by (simp add: retry(2) attemptStep_calls)
  next
    case (final out)
    then show ?thesis
      using "1.prems"(2) by (simp add: attemptStep_calls)
  qed
qed

lemma loop_retries_less:
  "(\<forall>a. retryGranted W cl opts a \<longrightarrow> a < K) \<Longrightarrow>
   \<forall>a \<in> set (retriesGrantedAt (fst (attemptLoop W cl url opts finalUrl attempt))). a < K"
proof (induction W cl url opts finalUrl attempt rule: attemptLoop.induct)
  case (1 W cl url opts finalUrl attempt)
  show ?case
  proof (cases rule: attemptLoop_cases [of W cl opts attempt url finalUrl])
    case retry
    then have lt: "attempt < K" using "1.prems" by simp
    have "snd (attemptStep W cl url opts finalUrl attempt) = Retry"
      using retry(1) by (simp add: attemptStep_Retry_iff)
    then have "\<forall>a \<in> set (retriesGrantedAt (fst (attemptLoop W cl url opts finalUrl (Suc attempt)))). a < K"
      using "1.IH" "1.prems" by simp
    then show ?thesis
      using lt by (simp add: retry attemptStep_retries)
  next
    case (final out)
    then show ?thesis
      by (simp add: attemptStep_retries)
  qed
qed

lemma loop_unroll:
  assumes fin: "snd (attemptStep W cl url opts finalUrl K) = Final out"
    and retr: "\<forall>a<K. retryGranted W cl opts a"
  shows "attempt \<le> K \<Longrightarrow>
    attemptLoop W cl url opts finalUrl attempt
      = (concat (map (\<lambda>i. fst (attemptStep W cl url opts finalUrl i)) [attempt..<Suc K]), out)"
proof (induction "K - attempt" arbitrary: attempt)
  case 0
  then have "attempt = K" by simp
  then show ?case
    using attemptLoop_Final [OF fin] by simp
next
  case (Suc n)
  then have lt: "attempt < K" by simp
  then have "snd (attemptStep W cl url opts finalUrl attempt) = Retry"
    using retr by (simp add: attemptStep_Retry_iff)
  moreover have "attemptLoop W cl url opts finalUrl (Suc attempt)
      = (concat (map (\<lambda>i. fst (attemptStep W cl url opts finalUrl i)) [Suc attempt..<Suc K]), out)"
    using Suc lt by simp
  moreover have "[attempt..<Suc K] = attempt # [Suc attempt..<Suc K]"
    using lt by (simp add: upt_conv_Cons)
  ultimately show ?case
    by (simp add: attemptLoop_Retry)
qed

lemma toInt32_le: "0 \<le> n \<Longrightarrow> toInt32 n \<le> n"
proof -
  assume "0 \<le> n"
  then have "(n + 2 ^ 31) mod 2 ^ 32 \<le> n + 2 ^ 31"
    by (intro zmod_le_nonneg_dividend) simp
  then show ?thesis
    by (simp add: toInt32_def)
qed

lemma allow_Policy_less:
  "0 \<le> N \<Longrightarrow> fst (allowAndDelayFromDecision (Some (Policy N d)) attempt) \<Longrightarrow> int attempt < N"
  using toInt32_le [of N] by (auto simp: Let_def split: if_splits)

lemma snd_prepend [simp]: "snd (prepend evs r) = snd r"
  by (simp add: prepend_def)



lemma final_status:
  "classify W (clientConfig cl) opts a = StatusFailed res data \<Longrightarrow> \<not> retryGranted W cl opts a \<Longrightarrow>
   snd (attemptStep W cl url opts finalUrl a) =
     Final (if suppress (clientConfig cl) opts
            then Resolved (filterFields (statusErrorResult W opts finalUrl res data) opts (clientConfig cl))
            else Rejected (CallError (statusCallError url opts res data)))"
  by (auto simp: attemptStep_def retryGranted_def classify_def decisionFor_def Let_def
        statusFailure_def
      split: fetch_result.splits sum.splits if_splits)

lemma final_success:
  "classify W (clientConfig cl) opts a = Success res data \<Longrightarrow>
   snd (attemptStep W cl url opts finalUrl a) =
     Final (Resolved (filterFields (successResult opts finalUrl res data) opts (clientConfig cl)))"
  by (auto simp: attemptStep_def classify_def Let_def success_def
      split: fetch_result.splits sum.splits if_splits)


lemma contentType_textResponse: "contentTypeOf (textResponse s st txt) = ''text/plain''"
  by (simp add: contentTypeOf_def textResponse_def headerGet_def toLowerCase_def lowerChar_def)

lemma textResponse_sel [simp]:
  "resStatus (textResponse s st txt) = s"
  "resStatusText (textResponse s st txt) = st"
  "resRedirected (textResponse s st txt) = False"
  "resBody (textResponse s st txt) = Some \<lparr>chunks = [txt], failsAtEnd = False\<rparr>"
  by (simp_all add: textResponse_def)

lemma parseResponse_textResponse:
  "optParseAs opts = None \<Longrightarrow> \<not> optOnProgress opts \<Longrightarrow> \<not> optUseProgressApi opts \<Longrightarrow>
   parseResponse W config opts (textResponse s st txt) = ([], Inr (Text txt))"
  by (simp add: parseResponse_def parseTarget_def contentType_textResponse fallbackParse_def
      bodyBytes_def)

lemma classify_textResponse:
  "transport W a = Responds (textResponse s st txt) \<Longrightarrow>
   optParseAs opts = None \<Longrightarrow> \<not> optOnProgress opts \<Longrightarrow> \<not> optUseProgressApi opts \<Longrightarrow>
   classify W config opts a =
     (if 200 \<le> s \<and> s \<le> 299 then Success (textResponse s st txt) (Text txt)
      else StatusFailed (textResponse s st txt) (Text txt))"
  by (simp add: classify_def parseResponse_textResponse resOk_def)

lemma request_builds:
  "finalUrlString W (clientConfig cl) url opts = Some finalUrl \<Longrightarrow>
   request W cl url opts = attemptLoop W cl url opts finalUrl 0"
  by (simp add: request_def)

lemma request_calls_le:
  "(\<forall>a. retryGranted W cl opts a \<longrightarrow> a < K) \<Longrightarrow>
   transportCalls (fst (request W cl url opts)) \<le> K + 1"
  using loop_calls_le [of W cl opts K 0 url]
  by (auto simp: request_def split: option.splits)

lemma request_retries_less:
  "(\<forall>a. retryGranted W cl opts a \<longrightarrow> a < K) \<Longrightarrow>
   \<forall>a \<in> set (retriesGrantedAt (fst (request W cl url opts))). a < K"
  using loop_retries_less [of W cl opts K url]
  by (auto simp: request_def split: option.splits)

lemma retryGranted_Policy_less:
  assumes "0 \<le> N"
    and "\<forall>a dec. decisionFor (clientConfig cl) opts (classify W (clientConfig cl) opts a) = Some dec
           \<longrightarrow> (\<exists>d. dec = Policy N d)"
    and "retryGranted W cl opts a"
  shows "a < nat N"
proof -
  have al: "fst (allowAndDelayFromDecision
      (decisionFor (clientConfig cl) opts (classify W (clientConfig cl) opts a)) a)"
    using assms(3) by (simp add: retryGranted_def willRetryNext_def)
  then obtain dec where dec: "decisionFor (clientConfig cl) opts (classify W (clientConfig cl) opts a) = Some dec"
    by (cases "decisionFor (clientConfig cl) opts (classify W (clientConfig cl) opts a)") auto
  then obtain d where "dec = Policy N d"
    using assms(2) by blast
  then have "int a < N"
    using al dec allow_Policy_less [OF assms(1)] by simp
  then show ?thesis by simp
qed

text \<open>When every attempt is a status failure governed by one decision \<open>{attempts: N}\<close>
  and nothing gates the retry, the loop makes exactly \<open>N + 1\<close> attempts.\<close>

lemma retryGranted_status:
  assumes "classify W (clientConfig cl) opts a = StatusFailed res data"
    and "orElse (callDecision opts) (decisionFromStatus (resStatus res) (configRetry (clientConfig cl))) = Some (Policy N d)"
    and "methodAllowed (clientConfig cl) opts" and "canReplayBody opts"
    and "withinBudget W (clientConfig cl) opts a"
    and "0 \<le> N" and "N < 2 ^ 31"
  shows "retryGranted W cl opts a \<longleftrightarrow> int a < N"
proof -
  have "toInt32 N = N"
    using assms(6,7) by (simp add: toInt32_def)
  then show ?thesis
    using assms(1-5)
    by (auto simp: retryGranted_def willRetryNext_def retryWithin_def decisionFor_def Let_def
        split: delay_setting.splits option.splits)
qed

lemma transportCalls_steps:
  "transportCalls (concat (map (\<lambda>i. fst (attemptStep W cl url opts finalUrl i)) xs)) = length xs"
  by (induction xs) (simp_all add: attemptStep_calls)

lemma filterFields_rStatus:
  "returnsField opts config FStatus \<Longrightarrow> rStatus (filterFields obj opts config) = rStatus obj"
  by (simp add: filterFields_def returnsField_def keep_def split: option.splits)

lemma filterFields_rOk:
  "returnsField opts config FOk \<Longrightarrow> rOk (filterFields obj opts config) = rOk obj"
  by (simp add: filterFields_def returnsField_def keep_def split: option.splits)

lemma exhausted_calls:
  assumes "\<forall>a<K. retryGranted W cl opts a" and "\<not> retryGranted W cl opts K"
    and "finalUrlString W (clientConfig cl) url opts = Some finalUrl"
  shows "transportCalls (fst (request W cl url opts)) = Suc K"
    and "snd (attemptStep W cl url opts finalUrl K) = Final (snd (request W cl url opts))"
    and "fst (request W cl url opts)
          = concat (map (\<lambda>i. fst (attemptStep W cl url opts finalUrl i)) [0..<Suc K])"
proof -
  obtain out where fin: "snd (attemptStep W cl url opts finalUrl K) = Final out"
    using assms(2) attemptStep_Retry_iff [of W cl url opts finalUrl K]
    by (cases "snd (attemptStep W cl url opts finalUrl K)") auto
  have eq: "request W cl url opts
      = (concat (map (\<lambda>i. fst (attemptStep W cl url opts finalUrl i)) [0..<Suc K]), out)"
    using loop_unroll [OF fin assms(1), of 0] request_builds [OF assms(3)] by simp
  show "transportCalls (fst (request W cl url opts)) = Suc K"
    unfolding eq fst_conv transportCalls_steps by simp
  show "snd (attemptStep W cl url opts finalUrl K) = Final (snd (request W cl url opts))"
    using fin eq by simp
  show "fst (request W cl url opts)
          = concat (map (\<lambda>i. fst (attemptStep W cl url opts finalUrl i)) [0..<Suc K])"
    using eq by simp
qed

lemma configRetry_configA:
  "configRetry configA
     = noRetryConfig\<lparr>onStatus := Some (Map.empty(Code 500 \<mapsto> Policy 2 NoDelay))\<rparr>"
  by (simp add: configRetry_def configA_def noConfig_def)

lemma decision_configA: "decisionFromStatus 500 (configRetry configA) = Some (Policy 2 NoDelay)"
  by (simp add: decisionFromStatus_def configRetry_configA noRetryConfig_def)

lemma noOptions_sel [simp]:
  "optParseAs noOptions = None" "optOnProgress noOptions = False"
  "optUseProgressApi noOptions = False" "optRetry noOptions = None"
  "optMethod noOptions = None" "optJson noOptions = None" "optBody noOptions = None"
  "optReturnFields noOptions = None" "optSuppressError noOptions = None"
  "optOn noOptions = None" "optToken noOptions = None" "optHeaders noOptions = None"
  "optMapResponse noOptions = None" "optParams noOptions = None"
  by (simp_all add: noOptions_def)

lemma noConfig_sel [simp]:
  "cfgRetry noConfig = None" "cfgReturnFields noConfig = None" "cfgOn noConfig = None"
  "cfgSuppressError noConfig = None" "cfgToken noConfig = None" "cfgHeaders noConfig = None"
  "progress noConfig = None" "baseUrl noConfig = None" "defaultOrigin noConfig = None"
  by (simp_all add: noConfig_def)

lemma quietWorld_sel [simp]:
  "transport (quietWorld t) = t" "startedAt (quietWorld t) = 0" "nowAt (quietWorld t) a = 0"
  "buildUrl (quietWorld t) b p ps origin = Some p"
  by (simp_all add: quietWorld_def)

lemma gates_default:
  "methodAllowed config noOptions \<longleftrightarrow> GET \<in> set (retryMethods config)"
  "canReplayBody noOptions"
  by (simp_all add: methodAllowed_def requestMethod_def DEFAULT_METHOD_def canReplayBody_def
      isStreamBody_def baseBody_def)

lemma attemptStep_handlers:
  "handlerCalls (fst (attemptStep W cl url opts finalUrl a)) =
     (case handlerFor (clientConfig cl) opts (classify W (clientConfig cl) opts a) of
        None \<Rightarrow> []
      | Some f \<Rightarrow>
          if effectiveOnce (clientConfig cl) opts \<and> retryGranted W cl opts a then []
          else [(a, f)])"
  by (auto simp: attemptStep_def retryGranted_def classify_def decisionFor_def handlerFor_def
        prepend_def Let_def backoff_def networkFailure_def parseFailure_def statusFailure_def
        success_def willRetryNext_def
      split: fetch_result.splits sum.splits option.splits)

lemma handlerCalls_concat:
  "handlerCalls (concat xss) = concat (map handlerCalls xss)"
  by (induction xss) simp_all

lemma retriesGrantedAt_concat:
  "retriesGrantedAt (concat xss) = concat (map retriesGrantedAt xss)"
  by (induction xss) simp_all

lemma once_terminal_firing:
  assumes url: "finalUrlString W (clientConfig cl) url opts = Some finalUrl"
    and st: "\<forall>a. \<exists>res data. classify W (clientConfig cl) opts a = StatusFailed res data
                \<and> resStatus res = s"
    and dec: "orElse (callDecision opts) (decisionFromStatus s (configRetry (clientConfig cl)))
              = Some (Policy 1 d)"
    and once: "effectiveOnce (clientConfig cl) opts"
    and gates: "methodAllowed (clientConfig cl) opts" "canReplayBody opts"
      "\<forall>a. withinBudget W (clientConfig cl) opts a"
    and h: "pickStatusHandler s (localOn opts) (globalOn (clientConfig cl)) codeToName = Some h"
  shows "handlerCalls (fst (request W cl url opts)) = [(1, h)]"
    and "transportCalls (fst (request W cl url opts)) = 2"
proof -
  have granted: "retryGranted W cl opts a \<longleftrightarrow> a < 1" for a
  proof -
    obtain res data where c: "classify W (clientConfig cl) opts a = StatusFailed res data"
      and s: "resStatus res = s"
      using st by blast
    have "retryGranted W cl opts a \<longleftrightarrow> int a < 1"
      using retryGranted_status [OF c, where N = 1 and d = d] dec s gates by simp
    then show ?thesis by auto
  qed
  have hf: "handlerFor (clientConfig cl) opts (classify W (clientConfig cl) opts a) = Some h" for a
  proof -
    obtain res data where c: "classify W (clientConfig cl) opts a = StatusFailed res data"
      and s: "resStatus res = s"
      using st by blast
    then show ?thesis
      using h by (simp add: handlerFor_def)
  qed
  have g: "\<forall>a<1. retryGranted W cl opts a" and n: "\<not> retryGranted W cl opts 1"
    using granted by simp_all
  have tr: "fst (request W cl url opts)
      = concat (map (\<lambda>i. fst (attemptStep W cl url opts finalUrl i)) [0..<Suc 1])"
    using exhausted_calls(3) [OF g n url] .
  have "[0..<Suc 1] = [0, 1]"
    by (simp add: upt_rec)
  then show "handlerCalls (fst (request W cl url opts)) = [(1, h)]"
    using once granted [of 0] granted [of 1]
    by (simp add: tr attemptStep_handlers hf)
  show "transportCalls (fst (request W cl url opts)) = 2"
    using exhausted_calls(1) [OF g n url] by simp
qed

lemma clientConfig_createCall [simp]: "clientConfig (createCall config) = config"
  by (simp add: createCall_def)

lemma finalUrl_quietWorld [simp]:
  "finalUrlString (quietWorld t) config url opts = Some url"
  by (simp add: finalUrlString_def)

lemma withinBudget_unlimited:
  "maxOverallTime config opts = None \<Longrightarrow> withinBudget W config opts a"
  by (simp add: withinBudget_def)

lemma configOnce_facts:
  "decisionFromStatus 500 (configRetry configOnce) = Some (Policy 1 NoDelay)"
  "retryMethods configOnce = DEFAULT_RETRY_METHODS"
  "maxOverallTime configOnce optionsOnce = None"
  "effectiveOnce configOnce optionsOnce"
  "pickStatusHandler 500 (localOn optionsOnce) (globalOn configOnce) codeToName = Some ''log500''"
  "callDecision optionsOnce = None"
  "canReplayBody optionsOnce"
  "requestMethod optionsOnce = GET"
  "optParseAs optionsOnce = None" "\<not> optOnProgress optionsOnce" "\<not> optUseProgressApi optionsOnce"
  by (simp_all add: configOnce_def optionsOnce_def decisionFromStatus_def configRetry_def
      noRetryConfig_def retryMethods_def maxOverallTime_def effectiveOnce_def orElse_def
      pickStatusHandler_def localOn_def globalOn_def callDecision_def canReplayBody_def
      isStreamBody_def baseBody_def requestMethod_def DEFAULT_METHOD_def)

lemma retryGranted_Flag:
  assumes "classify W (clientConfig cl) opts a = StatusFailed res data"
    and "orElse (callDecision opts) (decisionFromStatus (resStatus res) (configRetry (clientConfig cl)))
          = Some (Flag True)"
    and "methodAllowed (clientConfig cl) opts" and "canReplayBody opts"
    and "withinBudget W (clientConfig cl) opts a"
  shows "retryGranted W cl opts a \<longleftrightarrow> a < 1"
  using assms
  by (auto simp: retryGranted_def willRetryNext_def retryWithin_def decisionFor_def)

lemma retryGranted_Success:
  "classify W (clientConfig cl) opts a = Success res data \<Longrightarrow> \<not> retryGranted W cl opts a"
  by (simp add: retryGranted_def willRetryNext_def decisionFor_def)

lemma fail_then_succeed:
  assumes url: "finalUrlString W (clientConfig cl) url opts = Some finalUrl"
    and cd: "callDecision opts = None"
    and dec: "decisionFromStatus 500 (configRetry (clientConfig cl)) = Some (Flag True)"
    and once: "effectiveOnce (clientConfig cl) opts"
    and h200: "pickStatusHandler 200 (localOn opts) (globalOn (clientConfig cl)) codeToName = None"
    and c0: "classify W (clientConfig cl) opts 0 = StatusFailed res0 data0" "resStatus res0 = 500"
    and c1: "classify W (clientConfig cl) opts 1 = Success res1 data1" "resStatus res1 = 200"
    and gates: "methodAllowed (clientConfig cl) opts" "canReplayBody opts"
      "withinBudget W (clientConfig cl) opts 0"
  shows "handlerCalls (fst (request W cl url opts)) = []"
    and "transportCalls (fst (request W cl url opts)) = 2"
    and "snd (request W cl url opts)
          = Resolved (filterFields (successResult opts finalUrl res1 data1) opts (clientConfig cl))"
proof -
  have "orElse (callDecision opts) (decisionFromStatus (resStatus res0) (configRetry (clientConfig cl)))
      = Some (Flag True)"
    using cd dec c0(2) by (simp add: orElse_def)
  then have g0: "retryGranted W cl opts 0"
    using retryGranted_Flag [OF c0(1) _ gates] by simp
  have n1: "\<not> retryGranted W cl opts 1"
    using retryGranted_Success [OF c1(1)] .
  have g: "\<forall>a<1. retryGranted W cl opts a"
    using g0 by simp
  have tr: "fst (request W cl url opts)
      = concat (map (\<lambda>i. fst (attemptStep W cl url opts finalUrl i)) [0..<Suc 1])"
    using exhausted_calls(3) [OF g n1 url] .
  have "[0..<Suc 1] = [0, 1]"
    by (simp add: upt_rec)
  then show "handlerCalls (fst (request W cl url opts)) = []"
    using once g0 n1 c0 c1 h200
    by (simp add: tr attemptStep_handlers handlerFor_def split: option.splits)
  show "transportCalls (fst (request W cl url opts)) = 2"
    using exhausted_calls(1) [OF g n1 url] by simp
  show "snd (request W cl url opts)
          = Resolved (filterFields (successResult opts finalUrl res1 data1) opts (clientConfig cl))"
    using exhausted_calls(2) [OF g n1 url] final_success [OF c1(1), of url finalUrl] by simp
qed

lemma byName_empty [simp]: "byName n (\<lambda>x. None) = None"
  by (simp add: byName_def split: option.splits)

lemma orElse_simps [simp]: "orElse None b = b" "orElse (Some x) b = Some x"
  by (simp_all add: orElse_def)

lemma configB_facts:
  "decisionFromStatus 500 (configRetry configB) = Some (Flag True)"
  "retryMethods configB = DEFAULT_RETRY_METHODS"
  "maxOverallTime configB noOptions = None"
  "effectiveOnce configB noOptions"
  "pickStatusHandler 500 (localOn noOptions) (globalOn configB) codeToName = Some ''on500''"
  "cfgReturnFields configB = None"
  by (simp_all add: configB_def decisionFromStatus_def configRetry_def
      noRetryConfig_def retryMethods_def maxOverallTime_def effectiveOnce_def
      pickStatusHandler_def localOn_def globalOn_def Let_def)

lemma codeToName_200: "codeToName 200 = Some ''ok''"
  by (simp add: codeToName_def StatusCodeByName_def)

lemma configB_200:
  "pickStatusHandler 200 (localOn noOptions) (globalOn configB) codeToName = None"
  by (simp add: configB_def pickStatusHandler_def localOn_def globalOn_def
      byName_def codeToName_200 statusToWildcard_def Let_def)

lemma scenarioB_classes:
  "classify worldB configB noOptions 0
     = StatusFailed (textResponse 500 ''Internal Server Error'' ''oops'') (Text ''oops'')"
  "classify worldB configB noOptions 1 = Success (textResponse 200 ''OK'' ''fine'') (Text ''fine'')"
  "classify worldB configB noOptions (Suc 0)
     = Success (textResponse 200 ''OK'' ''fine'') (Text ''fine'')"
  by (simp_all add: classify_textResponse worldB_def)

lemma scenarioB_no_handler_call:
  "handlerCalls (fst (request worldB (createCall configB) ''https://api.test/x'' noOptions)) = []"
proof -
  show ?thesis
    by (rule fail_then_succeed(1)
        [where finalUrl = "''https://api.test/x''"
           and ?res0.0 = "textResponse 500 ''Internal Server Error'' ''oops''"
           and ?data0.0 = "Text ''oops''"
           and ?res1.0 = "textResponse 200 ''OK'' ''fine''" and ?data1.0 = "Text ''fine''"])
      (simp_all add: callDecision_def configB_facts configB_200
        scenarioB_classes gates_default withinBudget_unlimited DEFAULT_RETRY_METHODS_def,
       simp add: worldB_def)
qed

lemma stream_denies: "isStreamBody opts \<Longrightarrow> \<not> willRetryNext W config opts a decision"
  by (simp add: willRetryNext_def retryWithin_def canReplayBody_def)

lemma stream_never_granted: "isStreamBody opts \<Longrightarrow> \<not> retryGranted W cl opts a"
  by (simp add: retryGranted_def stream_denies)

lemma sentTo_observers:
  "sentHeaders (xs @ ys) = sentHeaders xs @ sentHeaders ys"
  "sentUrls (xs @ ys) = sentUrls xs @ sentUrls ys"
  "sentHeaders [] = []" "sentUrls [] = []"
  by (simp_all add: sentHeaders_def sentUrls_def List.map_filter_def)

lemma sentTo_Cons:
  "sentHeaders (e # es) = (case sentTo e of Some (u, h) \<Rightarrow> [h] | None \<Rightarrow> []) @ sentHeaders es"
  "sentUrls (e # es) = (case sentTo e of Some (u, h) \<Rightarrow> [u] | None \<Rightarrow> []) @ sentUrls es"
  by (simp_all add: sentHeaders_def sentUrls_def List.map_filter_def split: option.splits)

lemma sentTo_progress:
  "sentHeaders (map ProgressEvent ps) = []" "sentUrls (map ProgressEvent ps) = []"
  by (induction ps) (simp_all add: sentTo_Cons sentTo_observers)

lemma sentTo_fire:
  "sentHeaders (fire config opts retrying attempt h ctx) = []"
  "sentUrls (fire config opts retrying attempt h ctx) = []"
  by (simp_all add: fire_def sentTo_Cons sentTo_observers split: option.splits)

lemma attemptStep_sent:
  "sentHeaders (fst (attemptStep W cl url opts finalUrl a)) = [baseHeaders cl opts]"
  "sentUrls (fst (attemptStep W cl url opts finalUrl a)) = [finalUrl]"
  by (auto simp: attemptStep_def prepend_def Let_def backoff_def networkFailure_def
        parseFailure_def statusFailure_def success_def sentTo_Cons sentTo_observers
        sentTo_progress sentTo_fire
      split: fetch_result.splits sum.splits option.splits)

lemma loop_sent:
  "set (sentHeaders (fst (attemptLoop W cl url opts finalUrl attempt))) = {baseHeaders cl opts}"
proof (induction W cl url opts finalUrl attempt rule: attemptLoop.induct)
  case (1 W cl url opts finalUrl attempt)
  show ?case
  proof (cases rule: attemptLoop_cases [of W cl opts attempt url finalUrl])
    case retry
    have "snd (attemptStep W cl url opts finalUrl attempt) = Retry"
      using retry(1) by (simp add: attemptStep_Retry_iff)
    then have "set (sentHeaders (fst (attemptLoop W cl url opts finalUrl (Suc attempt))))
        = {baseHeaders cl opts}"
      using "1.IH" by simp
    then show ?thesis
      by (simp add: retry(2) sentTo_observers attemptStep_sent)
  next
    case (final out)
    then show ?thesis
      by (simp add: attemptStep_sent)
  qed
qed

lemma toLowerCase_authorization [simp]: "toLowerCase ''authorization'' = ''authorization''"
  by (simp add: toLowerCase_def lowerChar_def)

lemma toLowerCase_content_type [simp]: "toLowerCase ''content-type'' = ''content-type''"
  by (simp add: toLowerCase_def lowerChar_def)

lemma baseHeaders_authorization:
  "baseHeaders cl opts ''authorization'' = authHeaders cl opts ''authorization''"
  by (simp add: baseHeaders_def headersSet_def Let_def)

lemma cleared_token_falls_through:
  assumes "cfgToken (clientConfig cl) = Some (TokenString t)" and "optToken opts = None"
    and "\<not> headersHas (mergedHeaders (clientConfig cl) opts) ''authorization''"
  shows "baseHeaders (tokenClear cl) opts ''authorization''
          = (if t = [] then None else Some (''Bearer '' @ t))"
  using assms
  by (simp add: baseHeaders_authorization authHeaders_def resolveToken_def callToken_def
      tokenClear_def headersSet_def headersHas_def Let_def)

lemma single_attempt:
  assumes "\<not> retryGranted W cl opts 0" and "finalUrlString W (clientConfig cl) url opts = Some finalUrl"
  shows "transportCalls (fst (request W cl url opts)) = 1"
    and "retriesGrantedAt (fst (request W cl url opts)) = []"
    and "snd (attemptStep W cl url opts finalUrl 0) = Final (snd (request W cl url opts))"
    and "sentUrls (fst (request W cl url opts)) = [finalUrl]"
    and "sentHeaders (fst (request W cl url opts)) = [baseHeaders cl opts]"
proof -
  have g: "\<forall>a<0. retryGranted W cl opts a" by simp
  have tr: "fst (request W cl url opts) = fst (attemptStep W cl url opts finalUrl 0)"
    using exhausted_calls(3) [OF g assms] by simp
  show "transportCalls (fst (request W cl url opts)) = 1"
    using exhausted_calls(1) [OF g assms] by simp
  show "retriesGrantedAt (fst (request W cl url opts)) = []"
    using assms(1) by (simp add: tr attemptStep_retries)
  show "snd (attemptStep W cl url opts finalUrl 0) = Final (snd (request W cl url opts))"
    using exhausted_calls(2) [OF g assms] .
  show "sentUrls (fst (request W cl url opts)) = [finalUrl]"
    by (simp add: tr attemptStep_sent)
  show "sentHeaders (fst (request W cl url opts)) = [baseHeaders cl opts]"
    by (simp add: tr attemptStep_sent)
qed

lemma optionsStream_facts:
  "isStreamBody optionsStream" "requestMethod optionsStream = POST"
  "callDecision optionsStream = Some (Policy 9 NoDelay)"
  by (simp_all add: optionsStream_def isStreamBody_def baseBody_def requestMethod_def
      callDecision_def)

lemma configStream_facts:
  "methodAllowed configStream optionsStream"
  "onNetworkError (configRetry configStream) = Some (Policy 5 NoDelay)"
  by (simp_all add: methodAllowed_def retryMethods_def configRetry_def configStream_def
      noRetryConfig_def optionsStream_facts)

lemma status_error_url:
  assumes "classify W (clientConfig cl) opts a = StatusFailed res data"
    and "\<not> retryGranted W cl opts a" and "\<not> suppress (clientConfig cl) opts"
  shows "snd (attemptStep W cl url opts finalUrl a)
      = Final (Rejected (CallError (statusCallError url opts res data)))"
  using final_status [OF assms(1,2)] assms(3) by simp

lemma worldMissing_facts:
  "finalUrlString worldMissing configBase ''users/1'' noOptions
     = Some ''https://example.com/de/users/1''"
  "classify worldMissing configBase noOptions a
     = StatusFailed (textResponse 404 ''Not Found'' ''missing'') (Text ''missing'')"
  "\<not> retryGranted worldMissing (createCall configBase) noOptions a"
  "\<not> suppress configBase noOptions"
proof -
  show "finalUrlString worldMissing configBase ''users/1'' noOptions
     = Some ''https://example.com/de/users/1''"
    by (simp add: finalUrlString_def worldMissing_def configBase_def quietWorld_def)
  show c: "classify worldMissing configBase noOptions a
     = StatusFailed (textResponse 404 ''Not Found'' ''missing'') (Text ''missing'')"
    by (simp add: classify_textResponse worldMissing_def quietWorld_def)
  have cr: "configRetry configBase = noRetryConfig"
    by (simp add: configRetry_def configBase_def)
  show "\<not> retryGranted worldMissing (createCall configBase) noOptions a"
    by (simp add: retryGranted_def c willRetryNext_def decisionFor_def callDecision_def
        decisionFromStatus_def cr noRetryConfig_def)
  show "\<not> suppress configBase noOptions"
    by (simp add: suppress_def configBase_def)
qed

lemma request_sent_headers:
  "finalUrlString W (clientConfig cl) url opts = Some finalUrl \<Longrightarrow>
   set (sentHeaders (fst (request W cl url opts))) = {baseHeaders cl opts}"
  by (simp add: request_builds loop_sent)

lemma tokenClear_config [simp]: "clientConfig (tokenClear cl) = clientConfig cl"
  by (simp add: tokenClear_def)

lemma empty_token_sends_no_header:
  "map (\<lambda>h. h ''authorization'')
     (sentHeaders (fst (request (quietWorld (\<lambda>a. Responds (textResponse 200 ''OK'' ''me'')))
        (tokenClear (createCall (configToken []))) ''https://api.test/me'' noOptions)))
   = [None]"
proof -
  let ?W = "quietWorld (\<lambda>a. Responds (textResponse 200 ''OK'' ''me''))"
  let ?cl = "tokenClear (createCall (configToken []))"
  have "classify ?W (clientConfig ?cl) noOptions 0
      = Success (textResponse 200 ''OK'' ''me'') (Text ''me'')"
    by (simp add: classify_textResponse)
  then have n: "\<not> retryGranted ?W ?cl noOptions 0"
    by (rule retryGranted_Success)
  have u: "finalUrlString ?W (clientConfig ?cl) ''https://api.test/me'' noOptions
      = Some ''https://api.test/me''"
    by simp
  have "\<not> headersHas (mergedHeaders (configToken []) noOptions) ''authorization''"
    by (simp add: headersHas_def mergedHeaders_def newHeaders_def configToken_def)
  then have "baseHeaders ?cl noOptions ''authorization'' = None"
    using cleared_token_falls_through [of "createCall (configToken [])" "[]" noOptions]
    by (simp add: configToken_def)
  then show ?thesis
    using single_attempt(5) [OF n u] by simp
qed

lemma doneCalls_simps [simp]:
  "doneCalls [] = 0"
  "doneCalls (xs @ ys) = doneCalls xs + doneCalls ys"
  "doneCalls (e # es) = (if e = ApiDone then 1 else 0) + doneCalls es"
  by (simp_all add: doneCalls_def)

lemma doneCalls_readLoop [simp]:
  "doneCalls (readLoop onProgress useProgressApi progressAPI tot loaded cs) = 0"
  by (induction cs arbitrary: loaded) (simp_all add: Let_def)



lemma failure_objects [simp]:
  "rOk (networkErrorResult opts finalUrl err) = Some False"
  "rOk (parseErrorResult opts finalUrl res err) = Some False"
  "rOk (statusErrorResult W opts finalUrl res data) = Some False"
  "rStatus (networkErrorResult opts finalUrl err) = Some 0"
  "rStatus (parseErrorResult opts finalUrl res err) = Some (resStatus res)"
  "rStatus (statusErrorResult W opts finalUrl res data) = Some (resStatus res)"
  "rUrl (networkErrorResult opts finalUrl err) = Some finalUrl"
  "rUrl (parseErrorResult opts finalUrl res err) = Some finalUrl"
  "rUrl (statusErrorResult W opts finalUrl res data) = Some finalUrl"
  "rMethod (networkErrorResult opts finalUrl err) = Some (requestMethod opts)"
  "rMethod (parseErrorResult opts finalUrl res err) = Some (requestMethod opts)"
  "rMethod (statusErrorResult W opts finalUrl res data) = Some (requestMethod opts)"
  "rError (networkErrorResult opts finalUrl err)
     = Some \<lparr>errMessage = ''Network/Abort error'', errCause = Some (CauseError err)\<rparr>"
  "rError (parseErrorResult opts finalUrl res err)
     = Some \<lparr>errMessage = ''Response parse error'', errCause = Some (CauseError err)\<rparr>"
  "rError (statusErrorResult W opts finalUrl res data)
     = Some \<lparr>errMessage = failureMessage res,
              errCause = map_option CauseCode (codeOf W data)\<rparr>"
  by (simp_all add: networkErrorResult_def parseErrorResult_def statusErrorResult_def)

lemma filterFields_kept:
  "returnsField opts config FError \<Longrightarrow> rError (filterFields obj opts config) = rError obj"
  by (simp add: filterFields_def returnsField_def keep_def split: option.splits)




lemma no_retry_without_policy:
  "callDecision opts = None \<Longrightarrow> cfgRetry (clientConfig cl) = None \<Longrightarrow>
   \<not> retryGranted W cl opts a"
  by (simp add: retryGranted_def willRetryNext_def decisionFor_def configRetry_def
      noRetryConfig_def decisionFromStatus_def split: call_outcome.splits)

section \<open>The attempt bound\<close>

text \<open>
  Claim C1: when the decision the loop consults at every failing attempt is
  \<open>{attempts: N}\<close> with \<open>N \<ge> 0\<close>, a call makes at most \<open>N + 1\<close> transport invocations
  before it finalizes (the loop is total: it always finalizes), and the attempt counter
  passed to \<^verbatim>\<open>computeDelay\<close> when a retry is granted is at most \<open>N - 1\<close>. The bound needs
  none of the gating assumptions (eligible method, replayable body, time budget): they
  can only deny a retry. In particular, with the policy \<open>{500: {attempts: 2}}\<close>, no
  per-call decision, an eligible method, a replayable body, the budget not exhausted and
  a transport whose every response is a status failure with status 500, the call makes
  exactly 3 transport invocations and its final result or error carries status 500
  (the result as far as \<^verbatim>\<open>returnFields\<close> keeps the status).
\<close>

theorem retry_attempts_bounded:
  "(0 \<le> N
    \<and> (\<forall>a dec. decisionFor (clientConfig cl) opts (classify W (clientConfig cl) opts a) = Some dec
          \<longrightarrow> (\<exists>d. dec = Policy N d))
    \<longrightarrow> int (transportCalls (fst (request W cl url opts))) \<le> N + 1
      \<and> (\<forall>a \<in> set (retriesGrantedAt (fst (request W cl url opts))). int a \<le> N - 1))
   \<and> (finalUrlString W (clientConfig cl) url opts = Some finalUrl
      \<and> callDecision opts = None
      \<and> decisionFromStatus 500 (configRetry (clientConfig cl)) = Some (Policy 2 d)
      \<and> (\<forall>a. \<exists>res data. classify W (clientConfig cl) opts a = StatusFailed res data
                \<and> resStatus res = 500)
      \<and> methodAllowed (clientConfig cl) opts \<and> canReplayBody opts
      \<and> (\<forall>a. withinBudget W (clientConfig cl) opts a)
      \<and> returnsField opts (clientConfig cl) FStatus
    \<longrightarrow> transportCalls (fst (request W cl url opts)) = 3
      \<and> statusCarried (snd (request W cl url opts)) = Some 500)"
proof (intro conjI impI)
  assume h: "0 \<le> N
    \<and> (\<forall>a dec. decisionFor (clientConfig cl) opts (classify W (clientConfig cl) opts a) = Some dec
          \<longrightarrow> (\<exists>d. dec = Policy N d))"
  then have less: "\<forall>a. retryGranted W cl opts a \<longrightarrow> a < nat N"
    using retryGranted_Policy_less [of N cl opts W] by blast
  have "transportCalls (fst (request W cl url opts)) \<le> nat N + 1"
    using request_calls_le [OF less] .
  then show "int (transportCalls (fst (request W cl url opts))) \<le> N + 1"
    using h by linarith
  have "\<forall>a \<in> set (retriesGrantedAt (fst (request W cl url opts))). a < nat N"
    using request_retries_less [OF less] .
  then show "\<forall>a \<in> set (retriesGrantedAt (fst (request W cl url opts))). int a \<le> N - 1"
    by auto
next
  assume s: "finalUrlString W (clientConfig cl) url opts = Some finalUrl
      \<and> callDecision opts = None
      \<and> decisionFromStatus 500 (configRetry (clientConfig cl)) = Some (Policy 2 d)
      \<and> (\<forall>a. \<exists>res data. classify W (clientConfig cl) opts a = StatusFailed res data
                \<and> resStatus res = 500)
      \<and> methodAllowed (clientConfig cl) opts \<and> canReplayBody opts
      \<and> (\<forall>a. withinBudget W (clientConfig cl) opts a)
      \<and> returnsField opts (clientConfig cl) FStatus"
  have granted: "\<forall>a. retryGranted W cl opts a \<longleftrightarrow> a < 2"
  proof
    fix a
    obtain res data where c: "classify W (clientConfig cl) opts a = StatusFailed res data"
      and st: "resStatus res = 500"
      using s by blast
    have "orElse (callDecision opts)
            (decisionFromStatus (resStatus res) (configRetry (clientConfig cl)))
          = Some (Policy 2 d)"
      using s st by (simp add: orElse_def)
    then have "retryGranted W cl opts a \<longleftrightarrow> int a < 2"
      using retryGranted_status [OF c, where N = 2 and d = d] s by simp
    then show "retryGranted W cl opts a \<longleftrightarrow> a < 2" by auto
  qed
  have url: "finalUrlString W (clientConfig cl) url opts = Some finalUrl"
    using s by simp
  have g2: "\<forall>a<2. retryGranted W cl opts a" and n2: "\<not> retryGranted W cl opts 2"
    using granted by simp_all
  show "transportCalls (fst (request W cl url opts)) = 3"
    using exhausted_calls(1) [OF g2 n2 url] by simp
  obtain res data where c: "classify W (clientConfig cl) opts 2 = StatusFailed res data"
    and st: "resStatus res = 500"
    using s by blast
  have "Final (snd (request W cl url opts)) =
     Final (if suppress (clientConfig cl) opts
            then Resolved (filterFields (statusErrorResult W opts finalUrl res data) opts (clientConfig cl))
            else Rejected (CallError (statusCallError url opts res data)))"
    using final_status [OF c n2, where url = url and finalUrl = finalUrl]
      exhausted_calls(2) [OF g2 n2 url] by simp
  then show "statusCarried (snd (request W cl url opts)) = Some 500"
    using s st
    by (simp add: filterFields_rStatus statusErrorResult_def statusCallError_def split: if_splits)
qed

theorem retry_attempts_bounded_witness:
  "(0::int) \<le> 2
   \<and> decisionFromStatus 500 (configRetry (clientConfig (createCall configA))) = Some (Policy 2 NoDelay)
   \<and> methodAllowed (clientConfig (createCall configA)) noOptions
   \<and> canReplayBody noOptions
   \<and> int (transportCalls (fst (request worldA (createCall configA) ''https://api.test/x'' noOptions))) \<le> 2 + 1
   \<and> transportCalls (fst (request worldA (createCall configA) ''https://api.test/x'' noOptions)) = 3
   \<and> statusCarried (snd (request worldA (createCall configA) ''https://api.test/x'' noOptions)) = Some 500"
proof -
  let ?cl = "createCall configA"
  have cfg: "clientConfig ?cl = configA"
    by (simp add: createCall_def)
  have cls: "\<And>a. classify worldA configA noOptions a
      = StatusFailed (textResponse 500 ''Internal Server Error'' ''oops'') (Text ''oops'')"
    by (simp add: classify_textResponse worldA_def)
  have dec: "\<forall>a dec. decisionFor (clientConfig ?cl) noOptions (classify worldA (clientConfig ?cl) noOptions a) = Some dec
          \<longrightarrow> (\<exists>d. dec = Policy 2 d)"
    by (simp add: cfg cls decisionFor_def callDecision_def orElse_def decision_configA)
  have url: "finalUrlString worldA (clientConfig ?cl) ''https://api.test/x'' noOptions = Some ''https://api.test/x''"
    by (simp add: finalUrlString_def worldA_def)
  have cd: "callDecision noOptions = None"
    by (simp add: callDecision_def)
  have st: "\<forall>a. \<exists>res data. classify worldA (clientConfig ?cl) noOptions a = StatusFailed res data \<and> resStatus res = 500"
    by (simp add: cfg cls)
  have ma: "methodAllowed (clientConfig ?cl) noOptions"
    by (simp add: cfg gates_default retryMethods_def configRetry_configA noRetryConfig_def DEFAULT_RETRY_METHODS_def)
  have wb: "\<forall>a. withinBudget worldA (clientConfig ?cl) noOptions a"
    by (simp add: cfg withinBudget_def maxOverallTime_def configRetry_configA noRetryConfig_def)
  have "cfgReturnFields configA = None"
    by (simp add: configA_def)
  then have rf: "returnsField noOptions (clientConfig ?cl) FStatus"
    by (simp add: cfg returnsField_def fieldsToReturn_def)
  have d: "decisionFromStatus 500 (configRetry (clientConfig ?cl)) = Some (Policy 2 NoDelay)"
    by (simp add: cfg decision_configA)
  show ?thesis
    using retry_attempts_bounded [of 2 ?cl noOptions worldA "''https://api.test/x''" "''https://api.test/x''" NoDelay]
      dec url cd st ma wb rf d gates_default(2)
    by simp
qed

section \<open>Delay computation: range and determinism\<close>








section \<open>Handler resolution: the six tiers\<close>



section \<open>Firing on the terminal attempt\<close>

text \<open>
  Claim C4: for a status whose retry decision is \<open>{attempts: 1}\<close>, with the shared
  \<^verbatim>\<open>once\<close> flag set, an eligible method, a replayable body, the time budget not exceeded
  and every attempt a status failure with that status, the handler registered for the
  status is invoked exactly once over the whole call, on the second attempt (attempt
  counter 1), which is the final one: the call makes two transport invocations.
\<close>

theorem once_handler_fires_on_final_attempt_only:
  "finalUrlString W (clientConfig cl) url opts = Some finalUrl
   \<and> (\<forall>a. \<exists>res data. classify W (clientConfig cl) opts a = StatusFailed res data
           \<and> resStatus res = s)
   \<and> orElse (callDecision opts) (decisionFromStatus s (configRetry (clientConfig cl)))
       = Some (Policy 1 d)
   \<and> effectiveOnce (clientConfig cl) opts
   \<and> methodAllowed (clientConfig cl) opts \<and> canReplayBody opts
   \<and> (\<forall>a. withinBudget W (clientConfig cl) opts a)
   \<and> pickStatusHandler s (localOn opts) (globalOn (clientConfig cl)) codeToName = Some h
   \<Longrightarrow> handlerCalls (fst (request W cl url opts)) = [(1, h)]
       \<and> transportCalls (fst (request W cl url opts)) = 2"
  using once_terminal_firing [of W cl url opts finalUrl s d h] by blast

theorem once_handler_fires_on_final_attempt_only_witness:
  "effectiveOnce configOnce optionsOnce
   \<and> decisionFromStatus 500 (configRetry configOnce) = Some (Policy 1 NoDelay)
   \<and> pickStatusHandler 500 (localOn optionsOnce) (globalOn configOnce) codeToName = Some ''log500''
   \<and> handlerCalls (fst (request worldA (createCall configOnce) ''https://httpbin.org/status/500''
        optionsOnce)) = [(1, ''log500'')]
   \<and> transportCalls (fst (request worldA (createCall configOnce) ''https://httpbin.org/status/500''
        optionsOnce)) = 2"
proof -
  have cls: "\<forall>a. \<exists>res data. classify worldA configOnce optionsOnce a = StatusFailed res data
      \<and> resStatus res = 500"
    by (simp add: classify_textResponse worldA_def configOnce_facts)
  have dec: "orElse (callDecision optionsOnce) (decisionFromStatus 500 (configRetry configOnce))
      = Some (Policy 1 NoDelay)"
    by (simp add: configOnce_facts orElse_def)
  have ma: "methodAllowed configOnce optionsOnce"
    by (simp add: methodAllowed_def configOnce_facts DEFAULT_RETRY_METHODS_def)
  have wb: "\<forall>a. withinBudget worldA configOnce optionsOnce a"
    by (simp add: withinBudget_unlimited configOnce_facts)
  have url: "finalUrlString worldA configOnce ''https://httpbin.org/status/500'' optionsOnce
      = Some ''https://httpbin.org/status/500''"
    by (simp add: worldA_def)
  show ?thesis
    using once_handler_fires_on_final_attempt_only
      [of worldA "createCall configOnce" "''https://httpbin.org/status/500''" optionsOnce
          "''https://httpbin.org/status/500''" 500 NoDelay "''log500''"]
      cls dec ma wb url configOnce_facts
    by simp
qed

section \<open>Scenario B: a failure that is retried, then a success\<close>

text \<open>
  Claim C5 says that in scenario B (decision \<open>{500: true}\<close>, \<^verbatim>\<open>once\<close> set, a handler for 500
  and none for 200, the transport returning 500 and then 200) the registered handler
  fires exactly once. It does not fire at all: at the first attempt a retry follows, so
  the flag holds the handler back, and the second attempt is a 200 with no handler.
\<close>

theorem scenario_B_handler_fires_once_counterexample:
  "\<not> (length (handlerCalls
         (fst (request worldB (createCall configB) ''https://api.test/x'' noOptions))) = 1)"
  by (simp add: scenarioB_no_handler_call)

text \<open>
  Claim C5, amended: with the decision \<open>{500: true}\<close> for the status, the \<^verbatim>\<open>once\<close> flag
  set, a handler registered for 500 and none for 200, an eligible method, a replayable
  body, the budget not exhausted at the first attempt, and a transport that returns
  status 500 at the first attempt and 200 at the second, no handler is invoked during
  the call, two transport invocations are made, and the final result has \<open>ok: true\<close>
  (where \<^verbatim>\<open>returnFields\<close> keeps the field).
\<close>

theorem once_skips_the_retried_failure:
  "finalUrlString W (clientConfig cl) url opts = Some finalUrl
   \<and> callDecision opts = None
   \<and> decisionFromStatus 500 (configRetry (clientConfig cl)) = Some (Flag True)
   \<and> effectiveOnce (clientConfig cl) opts
   \<and> pickStatusHandler 500 (localOn opts) (globalOn (clientConfig cl)) codeToName = Some h
   \<and> pickStatusHandler 200 (localOn opts) (globalOn (clientConfig cl)) codeToName = None
   \<and> classify W (clientConfig cl) opts 0 = StatusFailed res0 data0 \<and> resStatus res0 = 500
   \<and> classify W (clientConfig cl) opts 1 = Success res1 data1 \<and> resStatus res1 = 200
   \<and> methodAllowed (clientConfig cl) opts \<and> canReplayBody opts
   \<and> withinBudget W (clientConfig cl) opts 0
   \<and> returnsField opts (clientConfig cl) FOk
   \<Longrightarrow> handlerCalls (fst (request W cl url opts)) = []
       \<and> transportCalls (fst (request W cl url opts)) = 2
       \<and> (\<exists>r. snd (request W cl url opts) = Resolved r \<and> rOk r = Some True)"
proof -
  assume a: "finalUrlString W (clientConfig cl) url opts = Some finalUrl
   \<and> callDecision opts = None
   \<and> decisionFromStatus 500 (configRetry (clientConfig cl)) = Some (Flag True)
   \<and> effectiveOnce (clientConfig cl) opts
   \<and> pickStatusHandler 500 (localOn opts) (globalOn (clientConfig cl)) codeToName = Some h
   \<and> pickStatusHandler 200 (localOn opts) (globalOn (clientConfig cl)) codeToName = None
   \<and> classify W (clientConfig cl) opts 0 = StatusFailed res0 data0 \<and> resStatus res0 = 500
   \<and> classify W (clientConfig cl) opts 1 = Success res1 data1 \<and> resStatus res1 = 200
   \<and> methodAllowed (clientConfig cl) opts \<and> canReplayBody opts
   \<and> withinBudget W (clientConfig cl) opts 0
   \<and> returnsField opts (clientConfig cl) FOk"
  note f = fail_then_succeed [of W cl url opts finalUrl res0 data0 res1 data1]
  have ok: "rOk (filterFields (successResult opts finalUrl res1 data1) opts (clientConfig cl)) = Some True"
    using a by (simp add: filterFields_rOk successResult_def resOk_def)
  have "handlerCalls (fst (request W cl url opts)) = []"
    by (rule f(1)) (use a in simp_all)
  moreover have "transportCalls (fst (request W cl url opts)) = 2"
    by (rule f(2)) (use a in simp_all)
  moreover have "snd (request W cl url opts)
      = Resolved (filterFields (successResult opts finalUrl res1 data1) opts (clientConfig cl))"
    by (rule f(3)) (use a in simp_all)
  ultimately show ?thesis
    using ok by simp
qed

theorem once_skips_the_retried_failure_witness:
  "decisionFromStatus 500 (configRetry configB) = Some (Flag True)
   \<and> effectiveOnce configB noOptions
   \<and> pickStatusHandler 500 (localOn noOptions) (globalOn configB) codeToName = Some ''on500''
   \<and> pickStatusHandler 200 (localOn noOptions) (globalOn configB) codeToName = None
   \<and> handlerCalls (fst (request worldB (createCall configB) ''https://api.test/x'' noOptions)) = []
   \<and> transportCalls (fst (request worldB (createCall configB) ''https://api.test/x'' noOptions)) = 2
   \<and> (\<exists>r. snd (request worldB (createCall configB) ''https://api.test/x'' noOptions) = Resolved r
          \<and> rOk r = Some True)"
proof -
  have ma: "methodAllowed configB noOptions"
    by (simp add: gates_default configB_facts DEFAULT_RETRY_METHODS_def)
  have rf: "returnsField noOptions configB FOk"
    by (simp add: returnsField_def fieldsToReturn_def configB_facts)
  have url: "finalUrlString worldB configB ''https://api.test/x'' noOptions = Some ''https://api.test/x''"
    by (simp add: worldB_def)
  have wb: "withinBudget worldB configB noOptions 0"
    by (simp add: withinBudget_unlimited configB_facts)
  have cd: "callDecision noOptions = None"
    by (simp add: callDecision_def)
  show ?thesis
    using once_skips_the_retried_failure
      [of worldB "createCall configB" "''https://api.test/x''" noOptions "''https://api.test/x''"
          "''on500''" "textResponse 500 ''Internal Server Error'' ''oops''" "Text ''oops''"
          "textResponse 200 ''OK'' ''fine''" "Text ''fine''"]
      ma rf url wb cd configB_facts configB_200 scenarioB_classes gates_default(2)
    by simp
qed

section \<open>A stream body is sent once\<close>

text \<open>
  Claim C7: a request whose body is a one-shot \<^verbatim>\<open>ReadableStream\<close> is never retried. Whatever
  the decision, the failure channel and the attempt, \<^verbatim>\<open>willRetryNext\<close> is false: the gate
  denies the retry as a value, nothing is thrown for it. The call makes exactly one
  transport invocation, grants no retry, and its outcome is the finalization of that
  first attempt.
\<close>

theorem stream_body_is_never_retried:
  "isStreamBody opts \<Longrightarrow>
     (\<forall>a decision. \<not> willRetryNext W (clientConfig cl) opts a decision)
     \<and> (finalUrlString W (clientConfig cl) url opts = Some finalUrl \<longrightarrow>
          transportCalls (fst (request W cl url opts)) = 1
          \<and> retriesGrantedAt (fst (request W cl url opts)) = []
          \<and> snd (attemptStep W cl url opts finalUrl 0) = Final (snd (request W cl url opts)))"
  using single_attempt [of W cl opts url finalUrl] stream_never_granted [of opts W cl 0]
  by (simp add: stream_denies)

theorem stream_body_is_never_retried_witness:
  "isStreamBody optionsStream
   \<and> methodAllowed configStream optionsStream
   \<and> fst (allowAndDelayFromDecision (callDecision optionsStream) 0)
   \<and> \<not> willRetryNext worldDown configStream optionsStream 0 (callDecision optionsStream)
   \<and> transportCalls (fst (request worldDown (createCall configStream) ''https://api.test/upload''
        optionsStream)) = 1"
proof -
  have url: "finalUrlString worldDown configStream ''https://api.test/upload'' optionsStream
      = Some ''https://api.test/upload''"
    by (simp add: worldDown_def)
  have al: "fst (allowAndDelayFromDecision (callDecision optionsStream) 0)"
    by (simp add: optionsStream_facts toInt32_def)
  show ?thesis
    using stream_body_is_never_retried
      [of optionsStream worldDown "createCall configStream" "''https://api.test/upload''"
          "''https://api.test/upload''"]
      url al optionsStream_facts(1) configStream_facts(1)
    by simp
qed

section \<open>The URL of a thrown status failure\<close>

text \<open>
  Claim C9 says that the \<^verbatim>\<open>CallError\<close> thrown when a non-success status exhausts the
  retries carries the final URL, the one passed to the transport. The code builds that
  error with \<^verbatim>\<open>url\<close>, the argument of \<^verbatim>\<open>request\<close>, where the two sibling channels and
  the suppressed result use \<^verbatim>\<open>finalUrlString\<close>. For the base URL
  \<^verbatim>\<open>https://example.com/de/\<close> and the path \<^verbatim>\<open>users/1\<close>, on a transport that answers 404:
  the transport is called with \<^verbatim>\<open>https://example.com/de/users/1\<close>, and the error thrown
  has the url \<^verbatim>\<open>users/1\<close>.
\<close>

theorem status_error_carries_the_request_url:
  "sentUrls (fst (request worldMissing (createCall configBase) ''users/1'' noOptions))
     = [''https://example.com/de/users/1'']
   \<and> (\<exists>e. snd (request worldMissing (createCall configBase) ''users/1'' noOptions)
             = Rejected (CallError e)
          \<and> ceStatus e = Some 404 \<and> ceUrl e = Some ''users/1'')"
proof -
  let ?cl = "createCall configBase"
  have url: "finalUrlString worldMissing (clientConfig ?cl) ''users/1'' noOptions
      = Some ''https://example.com/de/users/1''"
    by (simp add: worldMissing_facts)
  have n: "\<not> retryGranted worldMissing ?cl noOptions 0"
    by (rule worldMissing_facts)
  have "snd (attemptStep worldMissing ?cl ''users/1'' noOptions ''https://example.com/de/users/1'' 0)
      = Final (Rejected (CallError (statusCallError ''users/1'' noOptions
          (textResponse 404 ''Not Found'' ''missing'') (Text ''missing''))))"
    by (rule status_error_url) (simp_all add: worldMissing_facts)
  then have "snd (request worldMissing ?cl ''users/1'' noOptions)
      = Rejected (CallError (statusCallError ''users/1'' noOptions
          (textResponse 404 ''Not Found'' ''missing'') (Text ''missing'')))"
    using single_attempt(3) [OF n url] by simp
  then show ?thesis
    using single_attempt(4) [OF n url] by (simp add: statusCallError_def)
qed

section \<open>Clearing the token\<close>

text \<open>
  Claim C10 says that after \<^verbatim>\<open>token.clear()\<close> a client configured with a string token
  still sends \<^verbatim>\<open>Authorization: Bearer <config token>\<close>. For the empty string, which is a
  string token too, no header is sent: the resolution does fall through to
  \<^verbatim>\<open>config.token\<close>, but \<^verbatim>\<open>if (t)\<close> lets only a non-empty token set the header.
\<close>

theorem cleared_empty_token_counterexample:
  "cfgToken (configToken []) = Some (TokenString [])
   \<and> map (\<lambda>h. h ''authorization'')
       (sentHeaders (fst (request (quietWorld (\<lambda>a. Responds (textResponse 200 ''OK'' ''me'')))
          (tokenClear (createCall (configToken []))) ''https://api.test/me'' noOptions)))
     = [None]"
proof -
  have "cfgToken (configToken []) = Some (TokenString [])"
    by (simp add: configToken_def)
  then show ?thesis
    using empty_token_sends_no_header by simp
qed

text \<open>
  Claim C10, amended: when the client was configured with a non-empty string token, then
  after \<^verbatim>\<open>token.clear()\<close> (the internal slot is empty) a request that supplies no per-call
  token, and whose merged headers have no authorization header, makes at least one
  transport call, and every transport call carries
  \<^verbatim>\<open>authorization: Bearer <config token>\<close>.
\<close>

theorem cleared_token_falls_back_to_config:
  "cfgToken (clientConfig cl) = Some (TokenString t) \<and> t \<noteq> []
   \<and> optToken opts = None
   \<and> \<not> headersHas (mergedHeaders (clientConfig cl) opts) ''authorization''
   \<and> finalUrlString W (clientConfig cl) url opts = Some finalUrl
   \<Longrightarrow> tokenGet (tokenClear cl) = None
       \<and> sentHeaders (fst (request W (tokenClear cl) url opts)) \<noteq> []
       \<and> (\<forall>h \<in> set (sentHeaders (fst (request W (tokenClear cl) url opts))).
             h ''authorization'' = Some (''Bearer '' @ t))"
proof -
  assume a: "cfgToken (clientConfig cl) = Some (TokenString t) \<and> t \<noteq> []
   \<and> optToken opts = None
   \<and> \<not> headersHas (mergedHeaders (clientConfig cl) opts) ''authorization''
   \<and> finalUrlString W (clientConfig cl) url opts = Some finalUrl"
  then have s: "set (sentHeaders (fst (request W (tokenClear cl) url opts)))
      = {baseHeaders (tokenClear cl) opts}"
    using request_sent_headers [of W "tokenClear cl" url opts finalUrl] by simp
  have b: "baseHeaders (tokenClear cl) opts ''authorization'' = Some (''Bearer '' @ t)"
    using a cleared_token_falls_through [of cl t opts] by simp
  have "sentHeaders (fst (request W (tokenClear cl) url opts)) \<noteq> []"
    using s by auto
  then show ?thesis
    using s b by (simp add: tokenGet_def tokenClear_def)
qed

theorem cleared_token_falls_back_to_config_witness:
  "cfgToken (configToken ''s3cret'') = Some (TokenString ''s3cret'')
   \<and> tokenGet (createCall (configToken ''s3cret'')) = Some ''s3cret''
   \<and> tokenGet (tokenClear (createCall (configToken ''s3cret''))) = None
   \<and> map (\<lambda>h. h ''authorization'')
       (sentHeaders (fst (request worldA (tokenClear (createCall (configToken ''s3cret'')))
          ''https://api.test/me'' noOptions)))
     = [Some ''Bearer s3cret'']"
proof -
  let ?cl = "tokenClear (createCall (configToken ''s3cret''))"
  have m: "\<not> headersHas (mergedHeaders (configToken ''s3cret'') noOptions) ''authorization''"
    by (simp add: headersHas_def mergedHeaders_def newHeaders_def configToken_def)
  have c: "cfgToken (configToken ''s3cret'') = Some (TokenString ''s3cret'')"
    by (simp add: configToken_def)
  have g: "tokenGet (createCall (configToken ''s3cret'')) = Some ''s3cret''"
    by (simp add: tokenGet_def createCall_def configToken_def)
  have u: "finalUrlString worldA (clientConfig ?cl) ''https://api.test/me'' noOptions
      = Some ''https://api.test/me''"
    by (simp add: worldA_def)
  have n: "\<not> retryGranted worldA ?cl noOptions 0"
    by (rule no_retry_without_policy) (simp_all add: callDecision_def configToken_def)
  have one: "sentHeaders (fst (request worldA ?cl ''https://api.test/me'' noOptions))
      = [baseHeaders ?cl noOptions]"
    by (rule single_attempt(5) [OF n u])
  show ?thesis
    using cleared_token_falls_back_to_config
      [of "createCall (configToken ''s3cret'')" "''s3cret''" noOptions worldA
          "''https://api.test/me''" "''https://api.test/me''"]
      m c g u one
    by simp
qed

section \<open>Failures: thrown or folded into the result\<close>




section \<open>The done hook of the progress channel\<close>




end
